theory Spec2Isabelle
  imports Main
begin

section \<open>sftp_backup.py: encrypted backups over SFTP\<close>

text \<open>
  The script parses its command line, opens one SFTP session, and for every directory
  runs 7-Zip into a temporary archive, uploads the archive and removes it locally.
  Everything the script touches outside itself (the clock, the temporary directory, the
  SFTP server, the archiver process, the local file system) is made explicit: the
  answers of the outside world are the fields of an environment record, and what the
  script does to the world is a trace of events together with the set of local files.
  The script is read as a Python 3 program on a POSIX system: \<open>print\<close> with two
  arguments writes them separated by a blank, and paths are split at \<open>/\<close>.
\<close>

subsection \<open>Strings\<close>

definition digit_char :: "nat \<Rightarrow> char" where
  "digit_char d = char_of (48 + d)"

text \<open>Python's \<open>str(n)\<close> for a natural number and for an integer.\<close>

fun str_nat :: "nat \<Rightarrow> string" where
  "str_nat n = (if n < 10 then [digit_char n] else str_nat (n div 10) @ [digit_char (n mod 10)])"

declare str_nat.simps [simp del]

definition str_int :: "int \<Rightarrow> string" where
  "str_int i = (if i < 0 then CHR ''-'' # str_nat (nat (- i)) else str_nat (nat i))"

text \<open>\<open>sep.join(xs)\<close>.\<close>

fun str_join :: "string \<Rightarrow> string list \<Rightarrow> string" where
  "str_join sep [] = []"
| "str_join sep [x] = x"
| "str_join sep (x # y # ys) = x @ sep @ str_join sep (y # ys)"

text \<open>How \<open>str.format\<close> renders a value that may be \<open>None\<close>.\<close>

definition str_opt :: "string option \<Rightarrow> string" where
  "str_opt v = (case v of None \<Rightarrow> ''None'' | Some s \<Rightarrow> s)"

definition dquote :: char where
  "dquote = CHR 0x22"

definition newline :: char where
  "newline = CHR 0x0A"

subsection \<open>The clock: \<open>time.strftime('%Y.%m.%d_%H.%M.%S')\<close>\<close>

text \<open>
  \<open>time.strftime\<close> without a time argument formats the current local time. The local
  time is the tuple \<open>struct_time\<close>; its month, day, hour, minute and second are below
  100 and are printed with two digits, the year is printed as a decimal number.
\<close>

record struct_time =
  tm_year :: nat
  tm_mon :: nat
  tm_mday :: nat
  tm_hour :: nat
  tm_min :: nat
  tm_sec :: nat

definition pad2 :: "nat \<Rightarrow> string" where
  "pad2 n = [digit_char (n div 10 mod 10), digit_char (n mod 10)]"

definition strftime :: "struct_time \<Rightarrow> string" where
  "strftime t =
     str_nat (tm_year t) @ ''.'' @ pad2 (tm_mon t) @ ''.'' @ pad2 (tm_mday t) @ ''_'' @
     pad2 (tm_hour t) @ ''.'' @ pad2 (tm_min t) @ ''.'' @ pad2 (tm_sec t)"

text \<open>
  The local time that the clock returns is well formed: the month is 1 to 12, the day 1
  to 31, the hour at most 23, the minute at most 59 and the second at most 61.
\<close>

definition wellformed_time :: "struct_time \<Rightarrow> bool" where
  "wellformed_time t =
     (1 \<le> tm_mon t \<and> tm_mon t \<le> 12 \<and> 1 \<le> tm_mday t \<and> tm_mday t \<le> 31 \<and>
      tm_hour t \<le> 23 \<and> tm_min t \<le> 59 \<and> tm_sec t \<le> 61)"

subsection \<open>Paths: \<open>os.path.basename\<close> and \<open>os.path.join\<close> (POSIX)\<close>

type_synonym path = string

text \<open>\<open>basename(p) = p[p.rfind('/') + 1:]\<close>: what follows the last slash.\<close>

definition basename :: "path \<Rightarrow> string" where
  "basename p = rev (takeWhile (\<lambda>c. c \<noteq> CHR ''/'') (rev p))"

text \<open>
  The name of a directory as one reads it off its path, whether or not the path ends in
  slashes: \<open>docs\<close> for \<open>/data/docs\<close> and for \<open>/data/docs/\<close>.
\<close>

definition directory_name :: "path \<Rightarrow> string" where
  "directory_name p = basename (rev (dropWhile (\<lambda>c. c = CHR ''/'') (rev p)))"

text \<open>
  \<open>join(a, b)\<close>: an absolute \<open>b\<close> replaces \<open>a\<close>; otherwise \<open>b\<close> is appended, after a
  slash unless \<open>a\<close> is empty or ends with one.
\<close>

definition path_join :: "path \<Rightarrow> path \<Rightarrow> path" where
  "path_join a b =
     (if b \<noteq> [] \<and> hd b = CHR ''/'' then b
      else if a = [] \<or> last a = CHR ''/'' then a @ b
      else a @ ''/'' @ b)"

subsection \<open>Exceptions, events and the state of the world\<close>

text \<open>
  The exceptions that leave a function of the script. The two exceptions that
  \<open>main\<close> catches at connect time never leave it and are outcomes of the connect
  call below.
\<close>

datatype exn =
    SystemExit int
  | CalledProcessError int
  | FileNotFoundError path
  | ConnectError string
  | TransferError string

text \<open>
  What the script does that can be observed: lines on standard output, what
  \<open>argparse\<close> writes, and the calls to the SFTP library, to the archiver and to
  \<open>os.remove\<close>. A call is recorded when it is made, whether or not it succeeds.
\<close>

datatype event =
    Print string
  | Print_help
  | Usage_error string
  | Connect string int "string option" string
  | Run_archiver "string list"
  | Sftp_cd path
  | Sftp_put path string
  | Os_remove path
  | Sftp_close

record state =
  trace :: "event list"
  files :: "path set"

definition emit :: "event \<Rightarrow> state \<Rightarrow> state" where
  "emit e st = st\<lparr>trace := trace st @ [e]\<rparr>"

definition print_line :: "string \<Rightarrow> state \<Rightarrow> state" where
  "print_line s st = emit (Print s) st"

text \<open>
  The answers of the outside world. The \<open>k\<close>-th directory of a run (counted from 0)
  reads the clock once, runs the archiver once and uploads once, so these answers are
  indexed by \<open>k\<close>.
\<close>

datatype connect_outcome =
    Connected
  | AuthenticationException string
  | SSHException string
  | Connect_raises string

datatype process_outcome = Exited int | Not_started

datatype transfer_outcome = Transferred | Cd_fails string | Put_fails string

record env =
  initial_files :: "path set"
  gettempdir :: path
  localtime :: "nat \<Rightarrow> struct_time"
  connect_outcome :: connect_outcome
  archiver :: "nat \<Rightarrow> process_outcome"
  transfer :: "nat \<Rightarrow> transfer_outcome"

subsection \<open>\<open>compress_directory\<close>\<close>

definition archive_filename :: "path \<Rightarrow> struct_time \<Rightarrow> string" where
  "archive_filename directory_to_compress t =
     basename directory_to_compress @ ''_'' @ strftime t @ ''.7z''"

definition commands_7zip :: "string \<Rightarrow> path \<Rightarrow> path \<Rightarrow> string option \<Rightarrow> string list" where
  "commands_7zip full_path_to_7zip_executable path_to_archive directory_to_compress
       archive_password =
     [full_path_to_7zip_executable, ''a'', ''-t7z'', path_to_archive, directory_to_compress,
      ''-mhe'', ''-mx9''] @
     (case archive_password of None \<Rightarrow> [] | Some pw \<Rightarrow> [''-p'' @ pw])"

text \<open>
  \<open>subprocess.check_call\<close> returns on exit code 0 and raises \<open>CalledProcessError\<close> on
  any other; it raises \<open>FileNotFoundError\<close> when the executable cannot be started.
  The handler swallows exit code 1 and re-raises the rest. An archiver that exits with
  0 or 1 has written the archive.
\<close>

definition compress_directory ::
  "env \<Rightarrow> nat \<Rightarrow> path \<Rightarrow> string \<Rightarrow> string option \<Rightarrow> state \<Rightarrow> (exn + path) \<times> state" where
  "compress_directory w k directory_to_compress full_path_to_7zip_executable
       archive_password st =
     (let fname = archive_filename directory_to_compress (localtime w k);
          st1 = print_line (''Archive filename: '' @ fname) st;
          system_temp_dir = gettempdir w;
          st2 = print_line (''Using temporary directory: '' @ system_temp_dir) st1;
          path_to_archive = path_join system_temp_dir fname;
          st3 = print_line (''Full path to archive will be: '' @ path_to_archive) st2;
          commands = commands_7zip full_path_to_7zip_executable path_to_archive
                       directory_to_compress archive_password;
          st4 = print_line (''Running 7zip command:'' @ [newline] @ str_join '' '' commands) st3;
          st5 = print_line (replicate 79 CHR ''='') st4;
          st6 = emit (Run_archiver commands) st5
      in case archiver w k of
           Not_started \<Rightarrow> (Inl (FileNotFoundError full_path_to_7zip_executable), st6)
         | Exited rc \<Rightarrow>
             if rc = 0 then
               (Inr path_to_archive,
                print_line (replicate 79 CHR ''='')
                  (st6\<lparr>files := insert path_to_archive (files st6)\<rparr>))
             else if rc = 1 then
               (Inr path_to_archive,
                print_line (replicate 79 CHR ''='')
                  (print_line ''WARNING: 7z exited with warnings, but will continue anyway''
                     (st6\<lparr>files := insert path_to_archive (files st6)\<rparr>)))
             else (Inl (CalledProcessError rc), st6))"

subsection \<open>\<open>upload_file\<close>\<close>

text \<open>
  \<open>with sftp_connection.cd(remote_path): sftp_connection.put(path_to_local_file)\<close>.
  \<open>put\<close> without a remote name stores the file under the base name of the local path;
  it needs the local file to exist. An error of \<open>cd\<close> or of \<open>put\<close> leaves the
  function as an exception. The way back to the former remote directory at the end of
  the \<open>with\<close> block is not recorded. The parameter \<open>remote_path\<close> of the source
  is called \<open>remote_dir\<close> here, since \<open>remote_path\<close> is also a field of the
  arguments.
\<close>

definition upload_file :: "env \<Rightarrow> nat \<Rightarrow> path \<Rightarrow> path \<Rightarrow> state \<Rightarrow> (exn + unit) \<times> state" where
  "upload_file w k path_to_local_file remote_dir st =
     (let st1 = print_line (''Uploading '' @ [dquote] @ path_to_local_file @ [dquote] @
                            '' to remote dir '' @ [dquote] @ remote_dir @ [dquote] @ ''.'') st;
          st2 = emit (Sftp_cd remote_dir) st1;
          st3 = emit (Sftp_put path_to_local_file (basename path_to_local_file)) st2
      in case transfer w k of
           Cd_fails m \<Rightarrow> (Inl (TransferError m), st2)
         | Put_fails m \<Rightarrow>
             if path_to_local_file \<in> files st3 then (Inl (TransferError m), st3)
             else (Inl (FileNotFoundError path_to_local_file), st3)
         | Transferred \<Rightarrow>
             if path_to_local_file \<in> files st3 then (Inr (), print_line ''Upload seems OK.'' st3)
             else (Inl (FileNotFoundError path_to_local_file), st3))"

subsection \<open>\<open>os.remove\<close>\<close>

text \<open>
  Removing a file that exists takes it out of the set of local files; removing a file
  that does not exist raises \<open>FileNotFoundError\<close>.
\<close>

definition os_remove :: "path \<Rightarrow> state \<Rightarrow> (exn + unit) \<times> state" where
  "os_remove p st =
     (let st1 = emit (Os_remove p) st
      in if p \<in> files st1 then (Inr (), st1\<lparr>files := files st1 - {p}\<rparr>)
         else (Inl (FileNotFoundError p), st1))"

subsection \<open>\<open>get_args\<close>\<close>

text \<open>
  The tokens of the command line are read by \<open>argparse\<close>, which is not part of the
  script. The model starts from what \<open>argparse\<close> has read: the value given to each
  option (if any), the positional directories, the tokens it could not place, and
  whether reading stopped early, at a help flag (\<open>-h\<close>, \<open>--help\<close>) or at a token it
  rejects on the spot (an option without its value, a port that is not an integer).
  At a help flag \<open>argparse\<close> prints the help text and exits with status 0; every
  error is a usage message and exit status 2. Once all tokens are read, it first reports
  the required arguments that are missing, then the tokens it could not place, and then
  fills in the defaults.
\<close>

datatype early_exit = Help | Rejected string

record cmdline =
  early :: "early_exit option"
  given_directories :: "path list"
  given_7zip_command :: "string option"
  given_archive_password :: "string option"
  given_hostname :: "string option"
  given_port :: "int option"
  given_username :: "string option"
  given_server_password :: "string option"
  given_remote_path :: "string option"
  unrecognized :: "string list"

record args =
  directories :: "path list"
  command_7zip :: string
  archive_password :: "string option"
  sftp_hostname :: string
  sftp_port :: int
  sftp_username :: "string option"
  sftp_password :: string
  remote_path :: path

text \<open>
  The arguments declared with \<open>nargs='+'\<close> or \<open>required=True\<close>, in the order of
  their declaration, under the names \<open>argparse\<close> reports them by.
\<close>

definition required_missing :: "cmdline \<Rightarrow> string list" where
  "required_missing c =
     (if given_directories c = [] then [''directory''] else []) @
     (if given_7zip_command c = None then [''--7zip-command''] else []) @
     (if given_hostname c = None then [''--hostname''] else [])"

definition usage_error :: "string \<Rightarrow> state \<Rightarrow> (exn + args) \<times> state" where
  "usage_error m st = (Inl (SystemExit 2), emit (Usage_error m) st)"

definition with_default :: "'a \<Rightarrow> 'a option \<Rightarrow> 'a" where
  "with_default d v = (case v of None \<Rightarrow> d | Some x \<Rightarrow> x)"

definition get_args :: "cmdline \<Rightarrow> state \<Rightarrow> (exn + args) \<times> state" where
  "get_args c st =
     (case early c of
        Some Help \<Rightarrow> (Inl (SystemExit 0), emit Print_help st)
      | Some (Rejected m) \<Rightarrow> usage_error m st
      | None \<Rightarrow>
         (case (given_directories c, given_7zip_command c, given_hostname c) of
            (d # ds, Some z, Some h) \<Rightarrow>
              if unrecognized c \<noteq> [] then
                usage_error (''unrecognized arguments: '' @ str_join '' '' (unrecognized c)) st
              else
                (Inr \<lparr>directories = d # ds,
                      command_7zip = z,
                      archive_password = given_archive_password c,
                      sftp_hostname = h,
                      sftp_port = with_default 22 (given_port c),
                      sftp_username = given_username c,
                      sftp_password = with_default [] (given_server_password c),
                      remote_path = with_default ''/'' (given_remote_path c)\<rparr>, st)
          | _ \<Rightarrow>
              usage_error (''the following arguments are required: '' @
                           str_join '', '' (required_missing c)) st))"

subsection \<open>\<open>main\<close>\<close>

text \<open>The body of the loop over \<open>args.directories\<close>, for the \<open>k\<close>-th directory.\<close>

definition backup_directory :: "env \<Rightarrow> args \<Rightarrow> nat \<Rightarrow> path \<Rightarrow> state \<Rightarrow> (exn + unit) \<times> state" where
  "backup_directory w a k local_directory st =
     (case compress_directory w k local_directory (command_7zip a) (archive_password a) st of
        (Inl e, st1) \<Rightarrow> (Inl e, st1)
      | (Inr path_to_archive, st1) \<Rightarrow>
         (case upload_file w k path_to_archive (remote_path a) st1 of
            (Inl e, st2) \<Rightarrow> (Inl e, st2)
          | (Inr u, st2) \<Rightarrow> os_remove path_to_archive st2))"

fun backup_directories ::
  "env \<Rightarrow> args \<Rightarrow> nat \<Rightarrow> path list \<Rightarrow> state \<Rightarrow> (exn + unit) \<times> state" where
  "backup_directories w a k [] st = (Inr (), st)"
| "backup_directories w a k (d # ds) st =
     (case backup_directory w a k d st of
        (Inl e, st1) \<Rightarrow> (Inl e, st1)
      | (Inr u, st1) \<Rightarrow> backup_directories w a (Suc k) ds st1)"

definition connecting_message :: "args \<Rightarrow> string" where
  "connecting_message a =
     ''Connecting to '' @ sftp_hostname a @ '':'' @ str_int (sftp_port a) @ '' as '' @
     [dquote] @ str_opt (sftp_username a) @ [dquote] @ ''.''"

definition could_not_log_message :: "args \<Rightarrow> string \<Rightarrow> string" where
  "could_not_log_message a m =
     ''ERROR: Could not log to '' @ sftp_hostname a @ '':'' @ str_int (sftp_port a) @
     '' as '' @ str_opt (sftp_username a) @ '': '' @ m"

text \<open>The state in which \<open>main\<close> starts: nothing done yet.\<close>

definition start :: "env \<Rightarrow> state" where
  "start w = \<lparr>trace = [], files = initial_files w\<rparr>"

definition main :: "env \<Rightarrow> cmdline \<Rightarrow> (exn + unit) \<times> state" where
  "main w c =
     (case get_args c (start w) of
        (Inl e, st) \<Rightarrow> (Inl e, st)
      | (Inr a, st) \<Rightarrow>
         (let st1 = print_line (connecting_message a) st;
              st2 = emit (Connect (sftp_hostname a) (sftp_port a) (sftp_username a)
                            (sftp_password a)) st1
          in case connect_outcome w of
               AuthenticationException m \<Rightarrow> (Inr (), print_line (could_not_log_message a m) st2)
             | SSHException m \<Rightarrow> (Inr (), print_line m st2)
             | Connect_raises m \<Rightarrow> (Inl (ConnectError m), st2)
             | Connected \<Rightarrow>
                (case backup_directories w a 0 (directories a) st2 of
                   (Inl e, st3) \<Rightarrow> (Inl e, st3)
                 | (Inr u, st3) \<Rightarrow> (Inr (), emit Sftp_close st3))))"

text \<open>
  The exit code of the process that runs \<open>main()\<close>: 0 when \<open>main\<close> returns, the code of
  a \<open>SystemExit\<close>, and 1 for any other exception that nobody catches.
\<close>

definition exit_status :: "exn + unit \<Rightarrow> int" where
  "exit_status r =
     (case r of Inr u \<Rightarrow> 0 | Inl (SystemExit n) \<Rightarrow> n | Inl e \<Rightarrow> 1)"

definition exit_code :: "env \<Rightarrow> cmdline \<Rightarrow> int" where
  "exit_code w c = exit_status (fst (main w c))"

definition final_state :: "env \<Rightarrow> cmdline \<Rightarrow> state" where
  "final_state w c = snd (main w c)"



subsection \<open>Reading a trace\<close>

text \<open>
  Output (printed lines, the help text, a usage message) changes nothing outside the
  process. The side effects of a run are the other events of its trace, in order.
\<close>

fun is_output :: "event \<Rightarrow> bool" where
  "is_output (Print s) = True"
| "is_output Print_help = True"
| "is_output (Usage_error m) = True"
| "is_output e = False"

definition effects :: "event list \<Rightarrow> event list" where
  "effects tr = filter (\<lambda>e. \<not> is_output e) tr"

fun is_connect :: "event \<Rightarrow> bool" where
  "is_connect (Connect h p u pw) = True"
| "is_connect e = False"

fun is_archiver_run :: "event \<Rightarrow> bool" where
  "is_archiver_run (Run_archiver c) = True"
| "is_archiver_run e = False"

fun is_upload :: "event \<Rightarrow> bool" where
  "is_upload (Sftp_cd d) = True"
| "is_upload (Sftp_put p f) = True"
| "is_upload e = False"

fun is_put :: "event \<Rightarrow> bool" where
  "is_put (Sftp_put p f) = True"
| "is_put e = False"

fun is_removal :: "event \<Rightarrow> bool" where
  "is_removal (Os_remove p) = True"
| "is_removal e = False"

definition count_events :: "(event \<Rightarrow> bool) \<Rightarrow> event list \<Rightarrow> nat" where
  "count_events P tr = length (filter P tr)"


definition is_password_option :: "string \<Rightarrow> bool" where
  "is_password_option x = (take 2 x = ''-p'')"

subsection \<open>Names for what the claims talk about\<close>

text \<open>
  The path of the archive that \<open>compress_directory\<close> works on for the \<open>k\<close>-th
  directory \<open>d\<close>, the warning it prints on exit code 1, and the SFTP calls of one
  \<open>upload_file\<close>.
\<close>

definition archive_path :: "env \<Rightarrow> nat \<Rightarrow> path \<Rightarrow> path" where
  "archive_path w k d = path_join (gettempdir w) (archive_filename d (localtime w k))"

definition warning_line :: string where
  "warning_line = ''WARNING: 7z exited with warnings, but will continue anyway''"

definition upload_effects :: "env \<Rightarrow> nat \<Rightarrow> path \<Rightarrow> path \<Rightarrow> event list" where
  "upload_effects w k p r =
     (case transfer w k of
        Cd_fails m \<Rightarrow> [Sftp_cd r]
      | Put_fails m \<Rightarrow> [Sftp_cd r, Sftp_put p (basename p)]
      | Transferred \<Rightarrow> [Sftp_cd r, Sftp_put p (basename p)])"

text \<open>Decimal digits, and the part of an archive name that follows the year.\<close>

definition is_digit :: "char \<Rightarrow> bool" where
  "is_digit c = (48 \<le> (of_char c :: nat) \<and> (of_char c :: nat) \<le> 57)"

definition time_tail :: "struct_time \<Rightarrow> string" where
  "time_tail t = ''.'' @ pad2 (tm_mon t) @ ''.'' @ pad2 (tm_mday t) @ ''_'' @
     pad2 (tm_hour t) @ ''.'' @ pad2 (tm_min t) @ ''.'' @ pad2 (tm_sec t) @ ''.7z''"

subsection \<open>Concrete runs\<close>

text \<open>
  The example of the script's own documentation, cut down to the two directories
  \<open>/tmp/a\<close> and \<open>/tmp/b\<close>: a server that accepts the login, an archiver that exits
  with 0, transfers that succeed, and a clock that advances by one second per directory;
  \<open>demo_args\<close> is what \<open>get_args\<close> returns for this command line.
\<close>

definition demo_time :: "nat \<Rightarrow> struct_time" where
  "demo_time k =
     \<lparr>tm_year = 2026, tm_mon = 11, tm_mday = 4, tm_hour = 9, tm_min = 5, tm_sec = 7 + k\<rparr>"

definition demo_env :: env where
  "demo_env =
     \<lparr>initial_files = {}, gettempdir = ''/tmp'', localtime = demo_time,
      connect_outcome = Connected, archiver = (\<lambda>k. Exited 0),
      transfer = (\<lambda>k. Transferred)\<rparr>"

definition demo_cmdline :: cmdline where
  "demo_cmdline =
     \<lparr>early = None, given_directories = [''/tmp/a'', ''/tmp/b''],
      given_7zip_command = Some ''7z'', given_archive_password = Some ''Sekrit'',
      given_hostname = Some ''192.168.56.8'', given_port = None,
      given_username = Some ''test'', given_server_password = Some ''test'',
      given_remote_path = None, unrecognized = []\<rparr>"

definition demo_args :: args where
  "demo_args =
     \<lparr>directories = [''/tmp/a'', ''/tmp/b''], command_7zip = ''7z'',
      archive_password = Some ''Sekrit'', sftp_hostname = ''192.168.56.8'', sftp_port = 22,
      sftp_username = Some ''test'', sftp_password = ''test'', remote_path = ''/''\<rparr>"

text \<open>
  Variations of it: the command line \<open>-h\<close> (help is asked for and nothing else is
  given), the command line without \<open>--hostname\<close>, a server that refuses the login,
  an archiver that exits with the fatal code 2, and transfers that break off.
\<close>

definition help_cmdline :: cmdline where
  "help_cmdline =
     \<lparr>early = Some Help, given_directories = [],
      given_7zip_command = None, given_archive_password = None,
      given_hostname = None, given_port = None,
      given_username = None, given_server_password = None,
      given_remote_path = None, unrecognized = []\<rparr>"

definition no_host_cmdline :: cmdline where
  "no_host_cmdline = demo_cmdline\<lparr>given_hostname := None\<rparr>"

definition denied_env :: env where
  "denied_env = demo_env\<lparr>connect_outcome := AuthenticationException ''Authentication failed.''\<rparr>"


definition failing_transfer_env :: env where
  "failing_transfer_env = demo_env\<lparr>transfer := \<lambda>k. Put_fails ''Connection lost''\<rparr>"

text \<open>A run so fast that both directories are compressed within the same second.\<close>

definition same_second_env :: env where
  "same_second_env = demo_env\<lparr>localtime := \<lambda>k. demo_time 0\<rparr>"

section \<open>Basic facts\<close>

subsection \<open>Digits and time stamps\<close>

lemma of_char_digit_char: "d < 10 \<Longrightarrow> (of_char (digit_char d) :: nat) = 48 + d"
  by (simp add: digit_char_def)

lemma digit_char_neq:
  assumes "d < 10" and "(of_char c :: nat) < 48 \<or> 57 < (of_char c :: nat)"
  shows "digit_char d \<noteq> c"
proof
  assume "digit_char d = c"
  then have "(of_char c :: nat) = 48 + d"
    using of_char_digit_char [OF assms(1)] by simp
  with assms show False by arith
qed

lemma digit_char_inj:
  assumes "a < 10" and "b < 10" and "digit_char a = digit_char b"
  shows "a = b"
proof -
  have "(of_char (digit_char a) :: nat) = of_char (digit_char b)"
    using assms(3) by simp
  then show ?thesis
    using of_char_digit_char [OF assms(1)] of_char_digit_char [OF assms(2)] by simp
qed

lemma is_digit_digit_char: "d < 10 \<Longrightarrow> is_digit (digit_char d)"
  by (simp add: is_digit_def of_char_digit_char)

lemma str_nat_digits: "c \<in> set (str_nat n) \<Longrightarrow> is_digit c"
proof (induction n arbitrary: c rule: str_nat.induct)
  case (1 n)
  show ?case
  proof (cases "n < 10")
    case True
    with "1.prems" show ?thesis
      by (simp add: str_nat.simps [of n] is_digit_digit_char)
  next
    case False
    with "1.prems" have "c \<in> set (str_nat (n div 10)) \<or> c = digit_char (n mod 10)"
      by (auto simp: str_nat.simps [of n])
    then show ?thesis
      using "1.IH" [OF False] by (auto simp: is_digit_digit_char)
  qed
qed

lemma pad2_digits: "c \<in> set (pad2 n) \<Longrightarrow> is_digit c"
  by (auto simp: pad2_def is_digit_digit_char)

lemma length_pad2 [simp]: "length (pad2 n) = 2"
  by (simp add: pad2_def)

lemma not_digit_slash [simp]: "\<not> is_digit CHR ''/''" "\<not> is_digit CHR ''_''" "\<not> is_digit CHR ''.''"
  by (simp_all add: is_digit_def)

lemma pad2_inj:
  assumes "a < 100" and "b < 100" and "pad2 a = pad2 b"
  shows "a = b"
proof -
  have d: "digit_char (a div 10 mod 10) = digit_char (b div 10 mod 10)"
    and m: "digit_char (a mod 10) = digit_char (b mod 10)"
    using assms(3) by (simp_all add: pad2_def)
  have "a div 10 mod 10 = b div 10 mod 10"
    by (rule digit_char_inj [OF _ _ d]) simp_all
  moreover have "a div 10 < 10" and "b div 10 < 10"
    using assms(1,2) by simp_all
  ultimately have q: "a div 10 = b div 10" by simp
  have r: "a mod 10 = b mod 10"
    by (rule digit_char_inj [OF _ _ m]) simp_all
  have "a = 10 * (a div 10) + a mod 10" by simp
  also have "\<dots> = 10 * (b div 10) + b mod 10" using q r by simp
  also have "\<dots> = b" by simp
  finally show ?thesis .
qed

lemma strftime_chars:
  assumes "c \<in> set (strftime t)"
  shows "is_digit c \<or> c = CHR ''.'' \<or> c = CHR ''_''"
  using assms by (auto simp: strftime_def dest: str_nat_digits pad2_digits)

lemma strftime_no_slash: "CHR ''/'' \<notin> set (strftime t)"
  using strftime_chars [of "CHR ''/''" t] by auto

lemma str_nat_no_underscore: "CHR ''_'' \<notin> set (str_nat n)"
  using str_nat_digits [of "CHR ''_''" n] by auto

lemma strftime_seconds:
  assumes "strftime t1 = strftime t2"
  shows "pad2 (tm_sec t1) = pad2 (tm_sec t2)"
proof -
  have "(str_nat (tm_year t1) @ ''.'' @ pad2 (tm_mon t1) @ ''.'' @ pad2 (tm_mday t1) @ ''_'' @
     pad2 (tm_hour t1) @ ''.'' @ pad2 (tm_min t1) @ ''.'') @ pad2 (tm_sec t1) =
     (str_nat (tm_year t2) @ ''.'' @ pad2 (tm_mon t2) @ ''.'' @ pad2 (tm_mday t2) @ ''_'' @
     pad2 (tm_hour t2) @ ''.'' @ pad2 (tm_min t2) @ ''.'') @ pad2 (tm_sec t2)"
    using assms by (simp add: strftime_def)
  then show ?thesis
    by (simp add: append_eq_append_conv del: append_assoc)
qed

subsection \<open>Paths and archive names\<close>

lemma basename_no_slash: "CHR ''/'' \<notin> set (basename p)"
proof
  assume "CHR ''/'' \<in> set (basename p)"
  then have "CHR ''/'' \<in> set (takeWhile (\<lambda>c. c \<noteq> CHR ''/'') (rev p))"
    by (simp add: basename_def)
  then show False
    by (auto dest: set_takeWhileD)
qed

lemma basename_after_slash:
  assumes "CHR ''/'' \<notin> set f"
  shows "basename (a @ ''/'' @ f) = f"
proof -
  have "takeWhile (\<lambda>c. c \<noteq> CHR ''/'') (rev f @ CHR ''/'' # rev a) = rev f"
    using assms by (auto simp: takeWhile_tail takeWhile_eq_all_conv)
  then show ?thesis
    by (simp add: basename_def)
qed

lemma basename_plain:
  assumes "CHR ''/'' \<notin> set f"
  shows "basename f = f"
proof -
  have "\<forall>c\<in>set (rev f). c \<noteq> CHR ''/''"
    using assms by auto
  then have "takeWhile (\<lambda>c. c \<noteq> CHR ''/'') (rev f) = rev f"
    by (simp only: takeWhile_eq_all_conv)
  then show ?thesis
    by (simp only: basename_def rev_rev_ident)
qed

lemma basename_path_join:
  assumes "CHR ''/'' \<notin> set f"
  shows "basename (path_join a f) = f"
proof -
  have hd: "f \<noteq> [] \<Longrightarrow> hd f \<noteq> CHR ''/''"
    using assms by (cases f) auto
  show ?thesis
  proof (cases "a = []")
    case True
    with hd assms show ?thesis
      by (auto simp: path_join_def basename_plain)
  next
    case False
    show ?thesis
    proof (cases "last a = CHR ''/''")
      case True
      with False obtain b where b: "a = b @ ''/''"
        by (metis append_butlast_last_id)
      have "basename (a @ f) = f"
        unfolding b using basename_after_slash [OF assms, of b] by simp
      with hd True show ?thesis
        by (auto simp: path_join_def)
    next
      case F2: False
      with hd False show ?thesis
        using basename_after_slash [OF assms, of a] by (auto simp: path_join_def)
    qed
  qed
qed

lemma archive_filename_no_slash: "CHR ''/'' \<notin> set (archive_filename d t)"
  by (simp add: archive_filename_def basename_no_slash strftime_no_slash)

lemma path_join_inject:
  assumes "CHR ''/'' \<notin> set f" and "CHR ''/'' \<notin> set g" and "path_join a f = path_join a g"
  shows "f = g"
proof -
  have "basename (path_join a f) = basename (path_join a g)"
    by (rule arg_cong [OF assms(3)])
  then show ?thesis
    by (simp only: basename_path_join [OF assms(1)] basename_path_join [OF assms(2)])
qed

lemma basename_archive_path: "basename (archive_path w k d) = archive_filename d (localtime w k)"
  by (simp add: archive_path_def basename_path_join archive_filename_no_slash)

lemma archive_path_cases:
  "archive_path w k d = gettempdir w @ archive_filename d (localtime w k) \<or>
   archive_path w k d = gettempdir w @ ''/'' @ archive_filename d (localtime w k)"
proof -
  have "archive_filename d (localtime w k) \<noteq> []"
    by (simp add: archive_filename_def)
  moreover have "hd (archive_filename d (localtime w k)) \<noteq> CHR ''/''"
    using archive_filename_no_slash [of d "localtime w k"] calculation
    by (cases "archive_filename d (localtime w k)") auto
  ultimately show ?thesis
    by (simp add: archive_path_def path_join_def)
qed

text \<open>
  An archive name splits at its last underscore-and-year: what follows the year has a
  fixed width, and the year holds digits only.
\<close>

lemma takeWhile_upto_sep:
  assumes "c \<notin> set a"
  shows "takeWhile (\<lambda>x. x \<noteq> c) (a @ c # r) = a"
proof -
  have "\<forall>x\<in>set a. x \<noteq> c"
    using assms by auto
  then have "takeWhile (\<lambda>x. x \<noteq> c) a = a"
    by (simp only: takeWhile_eq_all_conv)
  then show ?thesis
    by (simp add: takeWhile_tail)
qed

lemma split_at_first:
  assumes "c \<notin> set a1" and "c \<notin> set a2" and "a1 @ c # r1 = a2 @ c # r2"
  shows "a1 = a2 \<and> r1 = r2"
proof -
  have "takeWhile (\<lambda>x. x \<noteq> c) (a1 @ c # r1) = takeWhile (\<lambda>x. x \<noteq> c) (a2 @ c # r2)"
    using assms(3) by simp
  then have "a1 = a2"
    by (simp only: takeWhile_upto_sep [OF assms(1)] takeWhile_upto_sep [OF assms(2)])
  with assms(3) show ?thesis by simp
qed

lemma split_at_last:
  assumes "c \<notin> set y1" and "c \<notin> set y2" and "x1 @ c # y1 = x2 @ c # y2"
  shows "x1 = x2 \<and> y1 = y2"
proof -
  have "rev y1 @ c # rev x1 = rev y2 @ c # rev x2"
    using arg_cong [OF assms(3), of rev] by simp
  moreover have "c \<notin> set (rev y1)" "c \<notin> set (rev y2)"
    using assms by simp_all
  ultimately have "rev y1 = rev y2 \<and> rev x1 = rev x2"
    by (rule split_at_first [rotated 2])
  then show ?thesis by simp
qed

lemma archive_filename_split:
  "archive_filename d t = (basename d @ CHR ''_'' # str_nat (tm_year t)) @ time_tail t"
  by (simp add: archive_filename_def strftime_def time_tail_def)

lemma length_time_tail: "length (time_tail t) = 18"
  by (simp add: time_tail_def)

lemma archive_filename_basename:
  assumes "archive_filename d1 t1 = archive_filename d2 t2"
  shows "basename d1 = basename d2"
proof -
  have "(basename d1 @ CHR ''_'' # str_nat (tm_year t1)) @ time_tail t1 =
        (basename d2 @ CHR ''_'' # str_nat (tm_year t2)) @ time_tail t2"
    using assms by (simp only: archive_filename_split)
  then have "basename d1 @ CHR ''_'' # str_nat (tm_year t1) =
             basename d2 @ CHR ''_'' # str_nat (tm_year t2)"
    by (simp add: append_eq_append_conv length_time_tail del: append_assoc)
  then show ?thesis
    using split_at_last [OF str_nat_no_underscore str_nat_no_underscore] by blast
qed

lemma archive_filename_seconds:
  assumes "archive_filename d1 t1 = archive_filename d2 t2"
    and "tm_sec t1 < 100" and "tm_sec t2 < 100"
  shows "tm_sec t1 = tm_sec t2"
proof -
  have "(basename d1 @ CHR ''_'' # str_nat (tm_year t1)) @ time_tail t1 =
        (basename d2 @ CHR ''_'' # str_nat (tm_year t2)) @ time_tail t2"
    using assms(1) by (simp only: archive_filename_split)
  then have "time_tail t1 = time_tail t2"
    by (simp add: append_eq_append_conv length_time_tail del: append_assoc)
  then have "pad2 (tm_sec t1) = pad2 (tm_sec t2)"
    by (simp add: time_tail_def)
  then show ?thesis
    by (rule pad2_inj [OF assms(2,3)])
qed

lemma str_nat_not_Nil: "str_nat n \<noteq> []"
  by (simp add: str_nat.simps [of n])

lemma str_nat_inj:
  assumes "str_nat a = str_nat b"
  shows "a = b"
  using assms
proof (induction a arbitrary: b rule: str_nat.induct)
  case (1 a)
  show ?case
  proof (cases "a < 10")
    case True
    show ?thesis
    proof (cases "b < 10")
      case b: True
      with True "1.prems" have "digit_char a = digit_char b"
        by (simp add: str_nat.simps [of a] str_nat.simps [of b])
      with True b show ?thesis
        by (rule digit_char_inj)
    next
      case b: False
      with True "1.prems" have "[digit_char a] = str_nat (b div 10) @ [digit_char (b mod 10)]"
        by (simp add: str_nat.simps [of a] str_nat.simps [of b])
      then have "str_nat (b div 10) = []"
        by simp
      then show ?thesis
        by (simp add: str_nat_not_Nil)
    qed
  next
    case False
    show ?thesis
    proof (cases "b < 10")
      case b: True
      with False "1.prems" have "str_nat (a div 10) @ [digit_char (a mod 10)] = [digit_char b]"
        by (simp add: str_nat.simps [of a] str_nat.simps [of b])
      then have "str_nat (a div 10) = []"
        by simp
      then show ?thesis
        by (simp add: str_nat_not_Nil)
    next
      case b: False
      with False "1.prems" have e: "str_nat (a div 10) @ [digit_char (a mod 10)] =
          str_nat (b div 10) @ [digit_char (b mod 10)]"
        by (simp add: str_nat.simps [of a] str_nat.simps [of b])
      then have q: "str_nat (a div 10) = str_nat (b div 10)"
        and d: "digit_char (a mod 10) = digit_char (b mod 10)"
        by simp_all
      have "a div 10 = b div 10"
        using "1.IH" [OF False q] .
      moreover have "a mod 10 = b mod 10"
        by (rule digit_char_inj [OF _ _ d]) simp_all
      ultimately have "10 * (a div 10) + a mod 10 = 10 * (b div 10) + b mod 10"
        by simp
      then show ?thesis by simp
    qed
  qed
qed

lemma pad2_append_eq: "pad2 a @ xs = pad2 b @ ys \<longleftrightarrow> pad2 a = pad2 b \<and> xs = ys"
  by (simp add: append_eq_append_conv)

lemma time_tail_inj:
  assumes "time_tail t1 = time_tail t2"
  shows "pad2 (tm_mon t1) = pad2 (tm_mon t2) \<and> pad2 (tm_mday t1) = pad2 (tm_mday t2) \<and>
         pad2 (tm_hour t1) = pad2 (tm_hour t2) \<and> pad2 (tm_min t1) = pad2 (tm_min t2) \<and>
         pad2 (tm_sec t1) = pad2 (tm_sec t2)"
  using assms by (simp add: time_tail_def pad2_append_eq)

lemma archive_filename_time:
  assumes "archive_filename d1 t1 = archive_filename d2 t2"
    and "wellformed_time t1" and "wellformed_time t2"
  shows "t1 = t2"
proof -
  have "(basename d1 @ CHR ''_'' # str_nat (tm_year t1)) @ time_tail t1 =
        (basename d2 @ CHR ''_'' # str_nat (tm_year t2)) @ time_tail t2"
    using assms(1) by (simp only: archive_filename_split)
  then have h: "basename d1 @ CHR ''_'' # str_nat (tm_year t1) =
                basename d2 @ CHR ''_'' # str_nat (tm_year t2)"
    and tl: "time_tail t1 = time_tail t2"
    by (simp_all add: append_eq_append_conv length_time_tail del: append_assoc)
  have "str_nat (tm_year t1) = str_nat (tm_year t2)"
    using split_at_last [OF str_nat_no_underscore str_nat_no_underscore h] by simp
  then have y: "tm_year t1 = tm_year t2"
    by (rule str_nat_inj)
  have lt: "tm_mon t1 < 100" "tm_mday t1 < 100" "tm_hour t1 < 100" "tm_min t1 < 100"
    "tm_sec t1 < 100" "tm_mon t2 < 100" "tm_mday t2 < 100" "tm_hour t2 < 100"
    "tm_min t2 < 100" "tm_sec t2 < 100"
    using assms(2,3) by (simp_all add: wellformed_time_def)
  have "tm_mon t1 = tm_mon t2" "tm_mday t1 = tm_mday t2" "tm_hour t1 = tm_hour t2"
    "tm_min t1 = tm_min t2" "tm_sec t1 = tm_sec t2"
    using time_tail_inj [OF tl] lt by (auto intro: pad2_inj)
  with y show ?thesis
    by simp
qed

lemma directory_name_plain:
  assumes "d = [] \<or> last d \<noteq> CHR ''/''"
  shows "directory_name d = basename d"
proof (cases "d = []")
  case True
  then show ?thesis by (simp add: directory_name_def)
next
  case False
  with assms have "hd (rev d) \<noteq> CHR ''/''"
    by (simp add: hd_rev)
  with False have "dropWhile (\<lambda>c. c = CHR ''/'') (rev d) = rev d"
    by (cases "rev d") auto
  then show ?thesis by (simp add: directory_name_def)
qed

subsection \<open>What each operation does to the trace and to the files\<close>

lemma effects_append [simp]: "effects (xs @ ys) = effects xs @ effects ys"
  by (simp add: effects_def)

lemma effects_Nil [simp]: "effects [] = []"
  by (simp add: effects_def)

lemma effects_Cons [simp]:
  "effects (e # tr) = (if is_output e then effects tr else e # effects tr)"
  by (simp add: effects_def)

lemma count_events_effects:
  assumes "\<And>e. P e \<Longrightarrow> \<not> is_output e"
  shows "count_events P (effects tr) = count_events P tr"
proof -
  have "filter P (filter (\<lambda>e. \<not> is_output e) tr) = filter P tr"
    using assms by (induction tr) auto
  then show ?thesis
    by (simp add: count_events_def effects_def)
qed

lemma trace_emit [simp]: "trace (emit e st) = trace st @ [e]"
  by (simp add: emit_def)

lemma files_emit [simp]: "files (emit e st) = files st"
  by (simp add: emit_def)

lemma trace_print_line [simp]: "trace (print_line s st) = trace st @ [Print s]"
  by (simp add: print_line_def)

lemma files_print_line [simp]: "files (print_line s st) = files st"
  by (simp add: print_line_def)

lemma trace_start [simp]: "trace (start w) = []"
  by (simp add: start_def)

lemma files_start [simp]: "files (start w) = initial_files w"
  by (simp add: start_def)

lemma compress_directory_result:
  "fst (compress_directory w k d exe pw st) =
     (case archiver w k of
        Not_started \<Rightarrow> Inl (FileNotFoundError exe)
      | Exited rc \<Rightarrow> if rc = 0 \<or> rc = 1 then Inr (archive_path w k d)
                     else Inl (CalledProcessError rc))"
  by (simp add: compress_directory_def archive_path_def Let_def split: process_outcome.splits)

lemma compress_directory_path:
  assumes "compress_directory w k d exe pw st = (Inr p, st')"
  shows "p = archive_path w k d"
proof -
  have "fst (compress_directory w k d exe pw st) = Inr p"
    using assms by simp
  then show ?thesis
    by (simp add: compress_directory_result split: process_outcome.splits if_splits)
qed

lemma compress_directory_effects:
  "effects (trace (snd (compress_directory w k d exe pw st))) =
     effects (trace st) @ [Run_archiver (commands_7zip exe (archive_path w k d) d pw)]"
  by (simp add: compress_directory_def archive_path_def Let_def split: process_outcome.splits)

lemma compress_directory_files:
  "files (snd (compress_directory w k d exe pw st)) =
     (case archiver w k of
        Not_started \<Rightarrow> files st
      | Exited rc \<Rightarrow> if rc = 0 \<or> rc = 1 then insert (archive_path w k d) (files st) else files st)"
  by (simp add: compress_directory_def archive_path_def Let_def split: process_outcome.splits)

lemma compress_directory_extends:
  "\<exists>evs. trace (snd (compress_directory w k d exe pw st)) = trace st @ evs"
  by (simp add: compress_directory_def Let_def split: process_outcome.splits)

lemma compress_directory_warning:
  assumes "archiver w k = Exited 1"
  shows "Print warning_line \<in> set (trace (snd (compress_directory w k d exe pw st)))"
  using assms by (simp add: compress_directory_def Let_def warning_line_def)

lemma upload_file_effects:
  "effects (trace (snd (upload_file w k p r st))) =
     effects (trace st) @
       (case transfer w k of
          Cd_fails m \<Rightarrow> [Sftp_cd r]
        | other \<Rightarrow> [Sftp_cd r, Sftp_put p (basename p)])"
  by (simp add: upload_file_def Let_def split: transfer_outcome.splits)

lemma upload_file_effects':
  "effects (trace (snd (upload_file w k p r st))) = effects (trace st) @ upload_effects w k p r"
  by (simp add: upload_file_effects upload_effects_def split: transfer_outcome.splits)

lemma upload_file_files: "files (snd (upload_file w k p r st)) = files st"
  by (simp add: upload_file_def Let_def split: transfer_outcome.splits)

lemma upload_file_extends:
  "\<exists>evs. trace (snd (upload_file w k p r st)) = trace st @ evs"
  by (simp add: upload_file_def Let_def split: transfer_outcome.splits)

lemma upload_file_result:
  "fst (upload_file w k p r st) =
     (case transfer w k of
        Cd_fails m \<Rightarrow> Inl (TransferError m)
      | Put_fails m \<Rightarrow> if p \<in> files st then Inl (TransferError m) else Inl (FileNotFoundError p)
      | Transferred \<Rightarrow> if p \<in> files st then Inr () else Inl (FileNotFoundError p))"
  by (simp add: upload_file_def Let_def split: transfer_outcome.splits)

lemma upload_file_ok:
  assumes "upload_file w k p r st = (Inr u, st')"
  shows "transfer w k = Transferred \<and> p \<in> files st \<and> files st' = files st"
proof -
  have "fst (upload_file w k p r st) = Inr u" and "snd (upload_file w k p r st) = st'"
    using assms by simp_all
  then show ?thesis
    using upload_file_files [of w k p r st]
    by (auto simp: upload_file_result split: transfer_outcome.splits if_splits)
qed

lemma os_remove_trace: "trace (snd (os_remove p st)) = trace st @ [Os_remove p]"
  by (simp add: os_remove_def Let_def)

lemma os_remove_files: "files (snd (os_remove p st)) = files st - {p}"
  by (auto simp: os_remove_def Let_def)

lemma os_remove_result:
  "fst (os_remove p st) = (if p \<in> files st then Inr () else Inl (FileNotFoundError p))"
  by (simp add: os_remove_def Let_def)

subsection \<open>One directory, and the loop\<close>

lemma backup_directory_extends:
  "\<exists>evs. trace (snd (backup_directory w a k d st)) = trace st @ evs"
proof -
  obtain r1 st1 where c: "compress_directory w k d (command_7zip a) (archive_password a) st = (r1, st1)"
    by (cases "compress_directory w k d (command_7zip a) (archive_password a) st")
  obtain e1 where e1: "trace st1 = trace st @ e1"
    using compress_directory_extends [of w k d "command_7zip a" "archive_password a" st] c by auto
  show ?thesis
  proof (cases r1)
    case (Inl e)
    with c e1 show ?thesis by (simp add: backup_directory_def)
  next
    case (Inr p)
    obtain r2 st2 where u: "upload_file w k p (remote_path a) st1 = (r2, st2)"
      by (cases "upload_file w k p (remote_path a) st1")
    obtain e2 where e2: "trace st2 = trace st1 @ e2"
      using upload_file_extends [of w k p "remote_path a" st1] u by auto
    show ?thesis
    proof (cases r2)
      case (Inl e)
      with c Inr u e1 e2 show ?thesis by (simp add: backup_directory_def)
    next
      case Inr2: (Inr x)
      with c Inr u e1 e2 show ?thesis
        using os_remove_trace [of p st2] by (simp add: backup_directory_def)
    qed
  qed
qed

lemma backup_directories_extends:
  "\<exists>evs. trace (snd (backup_directories w a k ds st)) = trace st @ evs"
proof (induction ds arbitrary: k st)
  case Nil
  show ?case by simp
next
  case (Cons d ds)
  obtain r1 st1 where b: "backup_directory w a k d st = (r1, st1)"
    by (cases "backup_directory w a k d st")
  obtain e1 where e1: "trace st1 = trace st @ e1"
    using backup_directory_extends [of w a k d st] b by auto
  show ?case
  proof (cases r1)
    case (Inl e)
    with b e1 show ?thesis by simp
  next
    case (Inr u)
    obtain e2 where "trace (snd (backup_directories w a (Suc k) ds st1)) = trace st1 @ e2"
      using Cons.IH [of "Suc k" st1] by auto
    with b Inr e1 show ?thesis by simp
  qed
qed

lemma backup_directory_fatal:
  assumes "archiver w k = Exited rc" and "rc \<noteq> 0" and "rc \<noteq> 1"
  shows "backup_directory w a k d st =
           (Inl (CalledProcessError rc),
            snd (compress_directory w k d (command_7zip a) (archive_password a) st))"
proof -
  have "fst (compress_directory w k d (command_7zip a) (archive_password a) st) =
          Inl (CalledProcessError rc)"
    using assms by (simp add: compress_directory_result)
  then show ?thesis
    by (cases "compress_directory w k d (command_7zip a) (archive_password a) st")
       (simp add: backup_directory_def)
qed

lemma backup_directory_proceeds:
  assumes "archiver w k = Exited rc" and "rc = 0 \<or> rc = 1"
  shows "\<exists>rest. effects (trace (snd (backup_directory w a k d st))) =
           effects (trace st) @
           [Run_archiver (commands_7zip (command_7zip a) (archive_path w k d) d (archive_password a))] @
           upload_effects w k (archive_path w k d) (remote_path a) @ rest"
proof -
  let ?c = "compress_directory w k d (command_7zip a) (archive_password a) st"
  let ?p = "archive_path w k d"
  obtain st1 where c: "?c = (Inr ?p, st1)"
    using assms compress_directory_result [of w k d "command_7zip a" "archive_password a" st]
    by (cases ?c) auto
  have e1: "effects (trace st1) = effects (trace st) @
      [Run_archiver (commands_7zip (command_7zip a) ?p d (archive_password a))]"
    using compress_directory_effects [of w k d "command_7zip a" "archive_password a" st] c by simp
  obtain r2 st2 where u: "upload_file w k ?p (remote_path a) st1 = (r2, st2)"
    by (cases "upload_file w k ?p (remote_path a) st1")
  have e2: "effects (trace st2) = effects (trace st1) @ upload_effects w k ?p (remote_path a)"
    using upload_file_effects' [of w k ?p "remote_path a" st1] u by simp
  show ?thesis
  proof (cases r2)
    case (Inl e)
    with c u e1 e2 show ?thesis by (simp add: backup_directory_def)
  next
    case (Inr x)
    with c u e1 e2 show ?thesis
      using os_remove_trace [of ?p st2] by (simp add: backup_directory_def)
  qed
qed

lemma backup_directory_success:
  assumes "archiver w k = Exited rc" and "rc = 0 \<or> rc = 1" and "transfer w k = Transferred"
  shows "fst (backup_directory w a k d st) = Inr ()"
    and "effects (trace (snd (backup_directory w a k d st))) =
           effects (trace st) @
           [Run_archiver (commands_7zip (command_7zip a) (archive_path w k d) d (archive_password a)),
            Sftp_cd (remote_path a),
            Sftp_put (archive_path w k d) (archive_filename d (localtime w k)),
            Os_remove (archive_path w k d)]"
    and "files (snd (backup_directory w a k d st)) = files st - {archive_path w k d}"
proof -
  let ?c = "compress_directory w k d (command_7zip a) (archive_password a) st"
  let ?p = "archive_path w k d"
  obtain st1 where c: "?c = (Inr ?p, st1)"
    using assms(1,2) compress_directory_result [of w k d "command_7zip a" "archive_password a" st]
    by (cases ?c) auto
  have e1: "effects (trace st1) = effects (trace st) @
      [Run_archiver (commands_7zip (command_7zip a) ?p d (archive_password a))]"
    using compress_directory_effects [of w k d "command_7zip a" "archive_password a" st] c by simp
  have f1: "files st1 = insert ?p (files st)"
    using assms(1,2) compress_directory_files [of w k d "command_7zip a" "archive_password a" st] c
    by auto
  let ?u = "upload_file w k ?p (remote_path a) st1"
  have "fst ?u = Inr ()"
    using assms(3) f1 by (simp add: upload_file_result)
  then obtain st2 where u: "?u = (Inr (), st2)"
    by (cases ?u) auto
  have e2: "effects (trace st2) = effects (trace st1) @ [Sftp_cd (remote_path a), Sftp_put ?p (basename ?p)]"
    using upload_file_effects [of w k ?p "remote_path a" st1] u assms(3) by simp
  have f2: "files st2 = files st1"
    using upload_file_files [of w k ?p "remote_path a" st1] u by simp
  have b: "backup_directory w a k d st = os_remove ?p st2"
    using c u by (simp add: backup_directory_def)
  show "fst (backup_directory w a k d st) = Inr ()"
    by (simp add: b os_remove_result f2 f1)
  show "effects (trace (snd (backup_directory w a k d st))) =
           effects (trace st) @
           [Run_archiver (commands_7zip (command_7zip a) (archive_path w k d) d (archive_password a)),
            Sftp_cd (remote_path a),
            Sftp_put (archive_path w k d) (archive_filename d (localtime w k)),
            Os_remove (archive_path w k d)]"
    by (simp add: b os_remove_trace e2 e1 basename_archive_path)
  show "files (snd (backup_directory w a k d st)) = files st - {archive_path w k d}"
    by (simp add: b os_remove_files f2 f1)
qed

lemma backup_directory_put_fails:
  assumes "archiver w k = Exited rc" and "rc = 0 \<or> rc = 1" and "transfer w k = Put_fails m"
  shows "fst (backup_directory w a k d st) = Inl (TransferError m)"
    and "effects (trace (snd (backup_directory w a k d st))) =
           effects (trace st) @
           [Run_archiver (commands_7zip (command_7zip a) (archive_path w k d) d (archive_password a)),
            Sftp_cd (remote_path a),
            Sftp_put (archive_path w k d) (archive_filename d (localtime w k))]"
    and "files (snd (backup_directory w a k d st)) = insert (archive_path w k d) (files st)"
proof -
  let ?c = "compress_directory w k d (command_7zip a) (archive_password a) st"
  let ?p = "archive_path w k d"
  obtain st1 where c: "?c = (Inr ?p, st1)"
    using assms(1,2) compress_directory_result [of w k d "command_7zip a" "archive_password a" st]
    by (cases ?c) auto
  have e1: "effects (trace st1) = effects (trace st) @
      [Run_archiver (commands_7zip (command_7zip a) ?p d (archive_password a))]"
    using compress_directory_effects [of w k d "command_7zip a" "archive_password a" st] c by simp
  have f1: "files st1 = insert ?p (files st)"
    using assms(1,2) compress_directory_files [of w k d "command_7zip a" "archive_password a" st] c
    by auto
  let ?u = "upload_file w k ?p (remote_path a) st1"
  have "fst ?u = Inl (TransferError m)"
    using assms(3) f1 by (simp add: upload_file_result)
  then obtain st2 where u: "?u = (Inl (TransferError m), st2)"
    by (cases ?u) auto
  have e2: "effects (trace st2) = effects (trace st1) @ [Sftp_cd (remote_path a), Sftp_put ?p (basename ?p)]"
    using upload_file_effects [of w k ?p "remote_path a" st1] u assms(3) by simp
  have f2: "files st2 = files st1"
    using upload_file_files [of w k ?p "remote_path a" st1] u by simp
  have b: "backup_directory w a k d st = (Inl (TransferError m), st2)"
    using c u by (simp add: backup_directory_def)
  show "fst (backup_directory w a k d st) = Inl (TransferError m)"
    by (simp add: b)
  show "effects (trace (snd (backup_directory w a k d st))) =
           effects (trace st) @
           [Run_archiver (commands_7zip (command_7zip a) (archive_path w k d) d (archive_password a)),
            Sftp_cd (remote_path a),
            Sftp_put (archive_path w k d) (archive_filename d (localtime w k))]"
    by (simp add: b e2 e1 basename_archive_path)
  show "files (snd (backup_directory w a k d st)) = insert (archive_path w k d) (files st)"
    by (simp add: b f2 f1)
qed

subsection \<open>\<open>get_args\<close> and the ways through \<open>main\<close>\<close>

lemma get_args_state:
  assumes "get_args c st = (Inr a, st')"
  shows "st' = st"
proof (cases "early c")
  case (Some x)
  with assms show ?thesis
    by (cases x) (simp_all add: get_args_def usage_error_def)
next
  case None
  show ?thesis
  proof (cases "given_directories c")
    case Nil
    with None assms show ?thesis
      by (simp add: get_args_def usage_error_def)
  next
    case (Cons d ds)
    show ?thesis
    proof (cases "given_7zip_command c")
      case N2: None
      with None Cons assms show ?thesis
        by (simp add: get_args_def usage_error_def)
    next
      case S2: (Some z)
      show ?thesis
      proof (cases "given_hostname c")
        case N3: None
        with None Cons S2 assms show ?thesis
          by (simp add: get_args_def usage_error_def)
      next
        case S3: (Some h)
        with None Cons S2 assms show ?thesis
          by (simp add: get_args_def usage_error_def split: if_splits)
      qed
    qed
  qed
qed

lemma get_args_cases:
  "get_args c st = (Inl (SystemExit 0), emit Print_help st) \<and> early c = Some Help \<or>
   (\<exists>m. get_args c st = (Inl (SystemExit 2), emit (Usage_error m) st)) \<and> early c \<noteq> Some Help \<or>
   (\<exists>a. get_args c st = (Inr a, st)) \<and> early c = None \<and> required_missing c = []"
proof (cases "early c")
  case (Some x)
  then show ?thesis
    by (cases x) (auto simp: get_args_def usage_error_def)
next
  case None
  show ?thesis
  proof (cases "given_directories c")
    case Nil
    with None show ?thesis
      by (auto simp: get_args_def usage_error_def)
  next
    case (Cons d ds)
    show ?thesis
    proof (cases "given_7zip_command c")
      case N2: None
      with None Cons show ?thesis
        by (auto simp: get_args_def usage_error_def)
    next
      case S2: (Some z)
      show ?thesis
      proof (cases "given_hostname c")
        case N3: None
        with None Cons S2 show ?thesis
          by (auto simp: get_args_def usage_error_def)
      next
        case S3: (Some h)
        with None Cons S2 show ?thesis
          by (auto simp: get_args_def usage_error_def required_missing_def)
      qed
    qed
  qed
qed

lemma get_args_missing:
  assumes "early c = None" and "required_missing c \<noteq> []"
  shows "get_args c st =
     (Inl (SystemExit 2),
      emit (Usage_error (''the following arguments are required: '' @
                         str_join '', '' (required_missing c))) st)"
proof (cases "given_directories c")
  case Nil
  with assms(1) show ?thesis
    by (simp add: get_args_def usage_error_def)
next
  case (Cons d ds)
  show ?thesis
  proof (cases "given_7zip_command c")
    case None
    with assms(1) Cons show ?thesis
      by (simp add: get_args_def usage_error_def)
  next
    case S2: (Some z)
    show ?thesis
    proof (cases "given_hostname c")
      case None
      with assms(1) Cons S2 show ?thesis
        by (simp add: get_args_def usage_error_def)
    next
      case (Some h)
      with assms(2) Cons S2 show ?thesis
        by (simp add: required_missing_def)
    qed
  qed
qed

lemma main_get_args_failed:
  assumes "get_args c (start w) = (Inl e, st)"
  shows "main w c = (Inl e, st)"
  using assms by (simp add: main_def)

lemma main_connected:
  assumes "get_args c (start w) = (Inr a, st0)" and "connect_outcome w = Connected"
  shows "main w c =
    (case backup_directories w a 0 (directories a)
            (emit (Connect (sftp_hostname a) (sftp_port a) (sftp_username a) (sftp_password a))
               (print_line (connecting_message a) (start w))) of
       (Inl e, st3) \<Rightarrow> (Inl e, st3)
     | (Inr u, st3) \<Rightarrow> (Inr (), emit Sftp_close st3))"
proof -
  have "get_args c (start w) = (Inr a, start w)"
    using assms(1) get_args_state [OF assms(1)] by simp
  then show ?thesis
    using assms(2) by (simp add: main_def Let_def)
qed

lemma main_authentication_failed:
  assumes "get_args c (start w) = (Inr a, st0)"
    and "connect_outcome w = AuthenticationException m"
  shows "main w c =
    (Inr (), print_line (could_not_log_message a m)
       (emit (Connect (sftp_hostname a) (sftp_port a) (sftp_username a) (sftp_password a))
          (print_line (connecting_message a) (start w))))"
proof -
  have "get_args c (start w) = (Inr a, start w)"
    using assms(1) get_args_state [OF assms(1)] by simp
  then show ?thesis
    using assms(2) by (simp add: main_def Let_def)
qed

lemma main_ssh_failed:
  assumes "get_args c (start w) = (Inr a, st0)"
    and "connect_outcome w = SSHException m"
  shows "main w c =
    (Inr (), print_line m
       (emit (Connect (sftp_hostname a) (sftp_port a) (sftp_username a) (sftp_password a))
          (print_line (connecting_message a) (start w))))"
proof -
  have "get_args c (start w) = (Inr a, start w)"
    using assms(1) get_args_state [OF assms(1)] by simp
  then show ?thesis
    using assms(2) by (simp add: main_def Let_def)
qed


lemma main_first_directory_fails:
  assumes "get_args c (start w) = (Inr a, st0)" and "connect_outcome w = Connected"
    and "directories a = d # ds"
    and "fst (backup_directory w a 0 d
           (emit (Connect (sftp_hostname a) (sftp_port a) (sftp_username a) (sftp_password a))
              (print_line (connecting_message a) (start w)))) = Inl e"
  shows "main w c = (Inl e, snd (backup_directory w a 0 d
           (emit (Connect (sftp_hostname a) (sftp_port a) (sftp_username a) (sftp_password a))
              (print_line (connecting_message a) (start w)))))"
proof -
  let ?s0 = "emit (Connect (sftp_hostname a) (sftp_port a) (sftp_username a) (sftp_password a))
              (print_line (connecting_message a) (start w))"
  obtain st1 where b: "backup_directory w a 0 d ?s0 = (Inl e, st1)"
    using assms(4) by (cases "backup_directory w a 0 d ?s0") auto
  then show ?thesis
    by (simp add: main_connected [OF assms(1,2)] assms(3))
qed

subsection \<open>The session events of a run\<close>








subsection \<open>The concrete runs\<close>

lemma digit_chars: "map digit_char [0, 1, 2, 3, 4, 5, 6, 7, 8, 9] = ''0123456789''"
  by code_simp

lemma demo_stamp_0: "strftime (demo_time 0) = ''2026.11.04_09.05.07''"
  by code_simp

lemma demo_stamp_1: "strftime (demo_time (Suc 0)) = ''2026.11.04_09.05.08''"
  by code_simp

lemma demo_archive_0: "archive_path demo_env 0 ''/tmp/a'' = ''/tmp/a_2026.11.04_09.05.07.7z''"
  by (simp add: archive_path_def demo_env_def archive_filename_def path_join_def demo_stamp_0
        basename_def)

lemma demo_archive_1: "archive_path demo_env (Suc 0) ''/tmp/b'' = ''/tmp/b_2026.11.04_09.05.08.7z''"
  by (simp add: archive_path_def demo_env_def archive_filename_def path_join_def demo_stamp_1
        basename_def)

lemma get_args_demo: "get_args demo_cmdline st = (Inr demo_args, st)"
  by (simp add: get_args_def demo_cmdline_def demo_args_def with_default_def)

lemma demo_connect [simp]:
  "sftp_hostname demo_args = ''192.168.56.8''" "sftp_port demo_args = 22"
  "sftp_username demo_args = Some ''test''" "sftp_password demo_args = ''test''"
  "remote_path demo_args = ''/''" "command_7zip demo_args = ''7z''"
  "archive_password demo_args = Some ''Sekrit''"
  "directories demo_args = [''/tmp/a'', ''/tmp/b'']"
  by (simp_all add: demo_args_def)

lemma demo_first_iteration:
  "\<exists>s1 s2.
     compress_directory demo_env 0 ''/tmp/a'' (command_7zip demo_args)
       (archive_password demo_args) (start demo_env) =
       (Inr ''/tmp/a_2026.11.04_09.05.07.7z'', s1) \<and>
     upload_file demo_env 0 ''/tmp/a_2026.11.04_09.05.07.7z'' (remote_path demo_args) s1 =
       (Inr (), s2)"
proof -
  let ?c = "compress_directory demo_env 0 ''/tmp/a'' (command_7zip demo_args)
       (archive_password demo_args) (start demo_env)"
  have a: "archiver demo_env 0 = Exited 0" and t: "transfer demo_env 0 = Transferred"
    by (simp_all add: demo_env_def)
  have "fst ?c = Inr ''/tmp/a_2026.11.04_09.05.07.7z''"
    by (simp add: compress_directory_result a demo_archive_0)
  then obtain s1 where c: "?c = (Inr ''/tmp/a_2026.11.04_09.05.07.7z'', s1)"
    by (cases ?c) auto
  have "files s1 = insert ''/tmp/a_2026.11.04_09.05.07.7z'' (files (start demo_env))"
    using compress_directory_files [of demo_env 0 "''/tmp/a''" "command_7zip demo_args"
      "archive_password demo_args" "start demo_env"] c
    by (simp add: a demo_archive_0)
  then have "fst (upload_file demo_env 0 ''/tmp/a_2026.11.04_09.05.07.7z''
               (remote_path demo_args) s1) = Inr ()"
    by (simp add: upload_file_result t)
  then obtain s2 where "upload_file demo_env 0 ''/tmp/a_2026.11.04_09.05.07.7z''
               (remote_path demo_args) s1 = (Inr (), s2)"
    by (cases "upload_file demo_env 0 ''/tmp/a_2026.11.04_09.05.07.7z''
               (remote_path demo_args) s1") auto
  with c show ?thesis by blast
qed


lemma failing_transfer_run:
  "main failing_transfer_env demo_cmdline =
     (Inl (TransferError ''Connection lost''),
      snd (backup_directory failing_transfer_env demo_args 0 ''/tmp/a''
        (emit (Connect ''192.168.56.8'' 22 (Some ''test'') ''test'')
           (print_line (connecting_message demo_args) (start failing_transfer_env)))))"
proof -
  have c: "connect_outcome failing_transfer_env = Connected"
    and a: "archiver failing_transfer_env 0 = Exited 0"
    and t: "transfer failing_transfer_env 0 = Put_fails ''Connection lost''"
    by (simp_all add: failing_transfer_env_def demo_env_def)
  have ok: "(0::int) = 0 \<or> (0::int) = 1"
    by simp
  show ?thesis
    using main_first_directory_fails [OF get_args_demo c, of "''/tmp/a''" "[''/tmp/b'']"
      "TransferError ''Connection lost''"]
    by (simp add: backup_directory_put_fails(1) [OF a ok t])
qed

lemma demo_stamp_same_second: "strftime (localtime same_second_env k) = ''2026.11.04_09.05.07''"
  by (simp add: same_second_env_def demo_env_def demo_stamp_0)

lemma directory_name_docs:
  "directory_name ''/data/docs/'' = ''docs''" "directory_name ''/data/pics/'' = ''pics''"
  by (simp_all add: directory_name_def basename_def)

section \<open>The claims\<close>

subsection \<open>C1\<close>

text \<open>
  C1, as the claim states it, fails: when the server refuses the login, \<open>main\<close> prints
  the error and returns, and a process whose \<open>main\<close> returns exits with code 0.
\<close>

theorem connect_failure_exit_code_counterexample:
  "connect_outcome denied_env = AuthenticationException ''Authentication failed.'' \<and>
   exit_code denied_env demo_cmdline = 0"
proof -
  have c: "connect_outcome denied_env = AuthenticationException ''Authentication failed.''"
    by (simp add: denied_env_def)
  show ?thesis
    by (simp add: c exit_code_def exit_status_def
          main_authentication_failed [OF get_args_demo c])
qed

text \<open>
  C1, amended. For every run in which opening the session fails with an authentication
  error or with an SSH (transport, handshake) error, the process reports the failure and
  exits with code 0: it prints the line that announces the connection, makes the connect
  call, prints one line that ends with the message of the error (for an authentication
  error, after the host, port and user name), and stops there, leaving the local files
  as they were.
\<close>

theorem connect_failure_reported:
  assumes "get_args c (start w) = (Inr a, st0)"
    and "connect_outcome w = AuthenticationException m \<or> connect_outcome w = SSHException m"
  shows "exit_code w c = 0 \<and>
    (\<exists>report pre.
       trace (final_state w c) =
         [Print (connecting_message a),
          Connect (sftp_hostname a) (sftp_port a) (sftp_username a) (sftp_password a),
          Print report] \<and>
       report = pre @ m \<and>
       (connect_outcome w = AuthenticationException m \<longrightarrow>
          report = could_not_log_message a m)) \<and>
    files (final_state w c) = initial_files w"
proof -
  from assms(2) show ?thesis
  proof
    assume au: "connect_outcome w = AuthenticationException m"
    have "could_not_log_message a m =
        (''ERROR: Could not log to '' @ sftp_hostname a @ '':'' @ str_int (sftp_port a) @
         '' as '' @ str_opt (sftp_username a) @ '': '') @ m"
      by (simp add: could_not_log_message_def)
    then show ?thesis
      using au
      by (simp add: exit_code_def exit_status_def final_state_def
            main_authentication_failed [OF assms(1) au])
  next
    assume ss: "connect_outcome w = SSHException m"
    have "m = [] @ m" by simp
    then show ?thesis
      using ss
      by (simp add: exit_code_def exit_status_def final_state_def
            main_ssh_failed [OF assms(1) ss])
  qed
qed

theorem connect_failure_reported_witness:
  "get_args demo_cmdline (start denied_env) = (Inr demo_args, start denied_env) \<and>
   connect_outcome denied_env = AuthenticationException ''Authentication failed.'' \<and>
   exit_code denied_env demo_cmdline = 0 \<and>
   trace (final_state denied_env demo_cmdline) =
     [Print (connecting_message demo_args),
      Connect ''192.168.56.8'' 22 (Some ''test'') ''test'',
      Print (could_not_log_message demo_args ''Authentication failed.'')]"
proof -
  have c: "connect_outcome denied_env = AuthenticationException ''Authentication failed.''"
    by (simp add: denied_env_def)
  show ?thesis
    using connect_failure_reported [OF get_args_demo, of denied_env "''Authentication failed.''"]
      get_args_demo c
    by (auto simp: demo_args_def)
qed

subsection \<open>C2\<close>

text \<open>
  C2. For every directory that \<open>compress_directory\<close> processes, when the archiver
  exits with code \<open>rc\<close>: if \<open>rc\<close> is 0 or 1, the run goes on to the upload of
  that directory's archive (the side effects of the loop continue with the SFTP calls of
  \<open>upload_file\<close> on the archive path); if \<open>rc\<close> is 1 the call is not fatal and
  the warning is printed; for any other \<open>rc\<close> the loop stops with
  \<open>CalledProcessError\<close>, and its only side effect from this directory on is the
  archiver run itself: no upload for this directory, nothing for the remaining ones.
\<close>

theorem archiver_exit_code_policy:
  assumes "archiver w k = Exited rc"
  shows "(rc = 0 \<or> rc = 1 \<longrightarrow>
            (\<exists>rest. effects (trace (snd (backup_directories w a k (d # ds) st))) =
               effects (trace st) @
               [Run_archiver (commands_7zip (command_7zip a) (archive_path w k d) d
                               (archive_password a))] @
               upload_effects w k (archive_path w k d) (remote_path a) @ rest)) \<and>
         (rc = 1 \<longrightarrow>
            fst (compress_directory w k d (command_7zip a) (archive_password a) st) =
              Inr (archive_path w k d) \<and>
            Print warning_line \<in> set (trace (snd (backup_directories w a k (d # ds) st)))) \<and>
         (rc \<noteq> 0 \<and> rc \<noteq> 1 \<longrightarrow>
            fst (backup_directories w a k (d # ds) st) = Inl (CalledProcessError rc) \<and>
            effects (trace (snd (backup_directories w a k (d # ds) st))) =
              effects (trace st) @
              [Run_archiver (commands_7zip (command_7zip a) (archive_path w k d) d
                              (archive_password a))] \<and>
            files (snd (backup_directories w a k (d # ds) st)) = files st)"
proof (intro conjI impI)
  assume ok: "rc = 0 \<or> rc = 1"
  obtain r1 st1 where b: "backup_directory w a k d st = (r1, st1)"
    by (cases "backup_directory w a k d st")
  obtain rest1 where r1: "effects (trace st1) =
           effects (trace st) @
           [Run_archiver (commands_7zip (command_7zip a) (archive_path w k d) d (archive_password a))] @
           upload_effects w k (archive_path w k d) (remote_path a) @ rest1"
    using backup_directory_proceeds [OF assms ok, of a d st] b by auto
  show "\<exists>rest. effects (trace (snd (backup_directories w a k (d # ds) st))) =
               effects (trace st) @
               [Run_archiver (commands_7zip (command_7zip a) (archive_path w k d) d
                               (archive_password a))] @
               upload_effects w k (archive_path w k d) (remote_path a) @ rest"
  proof (cases r1)
    case (Inl e)
    with b r1 show ?thesis by simp
  next
    case (Inr u)
    obtain e2 where "trace (snd (backup_directories w a (Suc k) ds st1)) = trace st1 @ e2"
      using backup_directories_extends [of w a "Suc k" ds st1] by auto
    with b Inr r1 show ?thesis by simp
  qed
next
  assume "rc = 1"
  with assms show "fst (compress_directory w k d (command_7zip a) (archive_password a) st) =
              Inr (archive_path w k d)"
    by (simp add: compress_directory_result)
next
  assume one: "rc = 1"
  let ?c = "compress_directory w k d (command_7zip a) (archive_password a) st"
  have w1: "Print warning_line \<in> set (trace (snd ?c))"
    using assms one by (simp add: compress_directory_warning)
  obtain r1 st1 where c: "?c = (r1, st1)" by (cases ?c)
  have "\<exists>evs. trace (snd (backup_directories w a k (d # ds) st)) = trace st1 @ evs"
  proof (cases r1)
    case (Inl e)
    with c show ?thesis by (simp add: backup_directory_def)
  next
    case (Inr p)
    obtain r2 st2 where u: "upload_file w k p (remote_path a) st1 = (r2, st2)"
      by (cases "upload_file w k p (remote_path a) st1")
    obtain e2 where e2: "trace st2 = trace st1 @ e2"
      using upload_file_extends [of w k p "remote_path a" st1] u by auto
    show ?thesis
    proof (cases r2)
      case (Inl e)
      with c Inr u e2 show ?thesis by (simp add: backup_directory_def)
    next
      case Inr2: (Inr x)
      obtain r3 st3 where o: "os_remove p st2 = (r3, st3)" by (cases "os_remove p st2")
      have e3: "trace st3 = trace st2 @ [Os_remove p]"
        using os_remove_trace [of p st2] o by simp
      show ?thesis
      proof (cases r3)
        case (Inl e)
        with c Inr u Inr2 o e2 e3 show ?thesis by (simp add: backup_directory_def)
      next
        case Inr3: (Inr y)
        obtain e4 where "trace (snd (backup_directories w a (Suc k) ds st3)) = trace st3 @ e4"
          using backup_directories_extends [of w a "Suc k" ds st3] by auto
        with c Inr u Inr2 o e2 e3 Inr3 show ?thesis by (simp add: backup_directory_def)
      qed
    qed
  qed
  with w1 c show "Print warning_line \<in> set (trace (snd (backup_directories w a k (d # ds) st)))"
    by auto
next
  assume "rc \<noteq> 0 \<and> rc \<noteq> 1"
  then have f: "backup_directory w a k d st =
           (Inl (CalledProcessError rc),
            snd (compress_directory w k d (command_7zip a) (archive_password a) st))"
    using backup_directory_fatal [OF assms] by simp
  show "fst (backup_directories w a k (d # ds) st) = Inl (CalledProcessError rc)"
    by (simp add: f)
  show "effects (trace (snd (backup_directories w a k (d # ds) st))) =
              effects (trace st) @
              [Run_archiver (commands_7zip (command_7zip a) (archive_path w k d) d
                              (archive_password a))]"
    by (simp add: f compress_directory_effects)
  show "files (snd (backup_directories w a k (d # ds) st)) = files st"
    using assms \<open>rc \<noteq> 0 \<and> rc \<noteq> 1\<close> by (simp add: f compress_directory_files)
qed

theorem archiver_exit_code_policy_witness:
  "archiver demo_env 0 = Exited 0 \<and>
   (\<exists>rest. effects (trace (snd (backup_directories demo_env demo_args 0
                       [''/tmp/a'', ''/tmp/b''] (start demo_env)))) =
      [Run_archiver (commands_7zip ''7z'' (archive_path demo_env 0 ''/tmp/a'') ''/tmp/a''
                       (Some ''Sekrit'')),
       Sftp_cd ''/'',
       Sftp_put (archive_path demo_env 0 ''/tmp/a'') (basename (archive_path demo_env 0 ''/tmp/a''))]
      @ rest) \<and>
   archiver (demo_env\<lparr>archiver := \<lambda>k. Exited 1\<rparr>) 0 = Exited 1 \<and>
   Print warning_line \<in> set (trace (snd (backup_directories
      (demo_env\<lparr>archiver := \<lambda>k. Exited 1\<rparr>) demo_args 0
      [''/tmp/a'', ''/tmp/b''] (start demo_env)))) \<and>
   archiver (demo_env\<lparr>archiver := \<lambda>k. Exited 2\<rparr>) 0 = Exited 2 \<and>
   fst (backup_directories (demo_env\<lparr>archiver := \<lambda>k. Exited 2\<rparr>) demo_args 0
      [''/tmp/a'', ''/tmp/b''] (start demo_env)) = Inl (CalledProcessError 2)"
proof -
  have a0: "archiver demo_env 0 = Exited 0"
    and a1: "archiver (demo_env\<lparr>archiver := \<lambda>k. Exited 1\<rparr>) 0 = Exited 1"
    and a2: "archiver (demo_env\<lparr>archiver := \<lambda>k. Exited 2\<rparr>) 0 = Exited 2"
    by (simp_all add: demo_env_def)
  show ?thesis
    using archiver_exit_code_policy [OF a0, of demo_args "''/tmp/a''" "[''/tmp/b'']" "start demo_env"]
      archiver_exit_code_policy [OF a1, of demo_args "''/tmp/a''" "[''/tmp/b'']" "start demo_env"]
      archiver_exit_code_policy [OF a2, of demo_args "''/tmp/a''" "[''/tmp/b'']" "start demo_env"]
      a0 a1 a2
    by (simp add: demo_args_def start_def upload_effects_def demo_env_def)
qed

subsection \<open>C3\<close>

text \<open>
  C3, as the claim states it, fails: when the upload of the first archive fails, the run
  ends with the exception of the upload; after the \<open>put\<close> nothing is removed, and the
  archive is still on local storage when the process exits.
\<close>

theorem failed_upload_keeps_archive_counterexample:
  "effects (trace (final_state failing_transfer_env demo_cmdline)) =
     [Connect ''192.168.56.8'' 22 (Some ''test'') ''test'',
      Run_archiver [''7z'', ''a'', ''-t7z'', ''/tmp/a_2026.11.04_09.05.07.7z'', ''/tmp/a'',
                    ''-mhe'', ''-mx9'', ''-pSekrit''],
      Sftp_cd ''/'',
      Sftp_put ''/tmp/a_2026.11.04_09.05.07.7z'' ''a_2026.11.04_09.05.07.7z''] \<and>
   ''/tmp/a_2026.11.04_09.05.07.7z'' \<in> files (final_state failing_transfer_env demo_cmdline) \<and>
   exit_code failing_transfer_env demo_cmdline = 1"
proof -
  have a: "archiver failing_transfer_env 0 = Exited 0"
    and t: "transfer failing_transfer_env 0 = Put_fails ''Connection lost''"
    and l: "localtime failing_transfer_env 0 = demo_time 0"
    and g: "gettempdir failing_transfer_env = ''/tmp''"
    by (simp_all add: failing_transfer_env_def demo_env_def)
  have ok: "(0::int) = 0 \<or> (0::int) = 1"
    by simp
  have p: "archive_path failing_transfer_env 0 ''/tmp/a'' = ''/tmp/a_2026.11.04_09.05.07.7z''"
    by (simp add: archive_path_def archive_filename_def path_join_def demo_stamp_0
          basename_def l g)
  have n: "archive_filename ''/tmp/a'' (demo_time 0) = ''a_2026.11.04_09.05.07.7z''"
    by (simp add: archive_filename_def demo_stamp_0 basename_def)
  show ?thesis
    by (simp add: final_state_def exit_code_def exit_status_def failing_transfer_run
          backup_directory_put_fails(2,3) [OF a ok t] p n l commands_7zip_def)
qed

text \<open>
  C3, amended. In every iteration of the loop in which the upload of the directory's
  archive returns without raising, the local archive file is deleted in the same
  iteration: the call of \<open>os.remove\<close> on the archive is the next event after the
  upload, it succeeds and takes the archive, which existed until then, out of the local
  files, and the next directory is processed from the state it leaves.
\<close>

theorem upload_then_remove:
  assumes "compress_directory w k d (command_7zip a) (archive_password a) st = (Inr p, st1)"
    and "upload_file w k p (remote_path a) st1 = (Inr u, st2)"
  shows "\<exists>st3. backup_directory w a k d st = (Inr (), st3) \<and>
           trace st3 = trace st2 @ [Os_remove p] \<and>
           p \<in> files st2 \<and>
           p \<notin> files st3 \<and>
           files st3 = files st2 - {p} \<and>
           backup_directories w a k (d # ds) st = backup_directories w a (Suc k) ds st3"
proof -
  have in2: "p \<in> files st2"
    using upload_file_ok [OF assms(2)] by simp
  then have "fst (os_remove p st2) = Inr ()"
    by (simp add: os_remove_result)
  then obtain st3 where r: "os_remove p st2 = (Inr (), st3)"
    by (cases "os_remove p st2") auto
  have b: "backup_directory w a k d st = (Inr (), st3)"
    using assms r by (simp add: backup_directory_def)
  have t: "trace st3 = trace st2 @ [Os_remove p]"
    using os_remove_trace [of p st2] r by simp
  have f: "files st3 = files st2 - {p}"
    using os_remove_files [of p st2] r by simp
  from b t f in2 show ?thesis by simp
qed

theorem upload_then_remove_witness:
  "\<exists>st3. backup_directory demo_env demo_args 0 ''/tmp/a'' (start demo_env) = (Inr (), st3) \<and>
     last (trace st3) = Os_remove ''/tmp/a_2026.11.04_09.05.07.7z'' \<and>
     ''/tmp/a_2026.11.04_09.05.07.7z'' \<notin> files st3 \<and>
     backup_directories demo_env demo_args 0 [''/tmp/a'', ''/tmp/b''] (start demo_env) =
       backup_directories demo_env demo_args (Suc 0) [''/tmp/b''] st3"
proof -
  from demo_first_iteration obtain s1 s2 where
    c: "compress_directory demo_env 0 ''/tmp/a'' (command_7zip demo_args)
       (archive_password demo_args) (start demo_env) = (Inr ''/tmp/a_2026.11.04_09.05.07.7z'', s1)"
    and u: "upload_file demo_env 0 ''/tmp/a_2026.11.04_09.05.07.7z'' (remote_path demo_args) s1 =
       (Inr (), s2)"
    by (elim exE conjE)
  from upload_then_remove [OF c u, of "[''/tmp/b'']"]
  obtain st3 where "backup_directory demo_env demo_args 0 ''/tmp/a'' (start demo_env) = (Inr (), st3)"
    and "trace st3 = trace s2 @ [Os_remove ''/tmp/a_2026.11.04_09.05.07.7z'']"
    and "''/tmp/a_2026.11.04_09.05.07.7z'' \<notin> files st3"
    and "backup_directories demo_env demo_args 0 [''/tmp/a'', ''/tmp/b''] (start demo_env) =
       backup_directories demo_env demo_args (Suc 0) [''/tmp/b''] st3"
    by (elim exE conjE)
  then show ?thesis by simp
qed

subsection \<open>C4\<close>

text \<open>
  C4, as the claim states it, fails: for the directory \<open>-pOOPS\<close> (which the command
  line can give after \<open>--\<close>) and no archive password, the command line of the archiver
  holds the argument \<open>-pOOPS\<close>, which is a password option.
\<close>

theorem dash_directory_counterexample:
  "effects (trace (snd (compress_directory demo_env 0 ''-pOOPS'' ''7z'' None (start demo_env)))) =
     [Run_archiver [''7z'', ''a'', ''-t7z'', ''/tmp/-pOOPS_2026.11.04_09.05.07.7z'', ''-pOOPS'',
                    ''-mhe'', ''-mx9'']] \<and>
   list_ex is_password_option
     [''7z'', ''a'', ''-t7z'', ''/tmp/-pOOPS_2026.11.04_09.05.07.7z'', ''-pOOPS'',
      ''-mhe'', ''-mx9'']"
proof -
  have "archive_path demo_env 0 ''-pOOPS'' = ''/tmp/-pOOPS_2026.11.04_09.05.07.7z''"
    by (simp add: archive_path_def demo_env_def archive_filename_def path_join_def demo_stamp_0
          basename_def)
  then show ?thesis
    by (simp add: compress_directory_effects commands_7zip_def is_password_option_def)
qed

text \<open>
  C4, amended. Every call of \<open>compress_directory\<close> runs the archiver once, on a
  command line made of the seven fixed arguments (the executable, the command \<open>a\<close>, the
  archive format \<open>-t7z\<close>, the archive path, the directory, header encryption
  \<open>-mhe\<close> and maximum compression \<open>-mx9\<close>) followed by the options that depend on
  the password: the password option \<open>-p<password>\<close> when an archive password was
  supplied, and nothing otherwise. When none of the executable, the archive path and the
  directory is itself written like a password option, the whole command line contains a
  password option if and only if an archive password was supplied.
\<close>

theorem archiver_command_line:
  "\<exists>cmds opts.
     effects (trace (snd (compress_directory w k d exe pw st))) =
       effects (trace st) @ [Run_archiver cmds] \<and>
     cmds = [exe, ''a'', ''-t7z'', archive_path w k d, d, ''-mhe'', ''-mx9''] @ opts \<and>
     ''-t7z'' \<in> set cmds \<and> ''-mx9'' \<in> set cmds \<and> ''-mhe'' \<in> set cmds \<and>
     (list_ex is_password_option opts \<longleftrightarrow> pw \<noteq> None) \<and>
     opts = (case pw of None \<Rightarrow> [] | Some s \<Rightarrow> [''-p'' @ s]) \<and>
     (\<not> is_password_option exe \<and> \<not> is_password_option (archive_path w k d) \<and>
      \<not> is_password_option d \<longrightarrow>
        (list_ex is_password_option cmds \<longleftrightarrow> pw \<noteq> None))"
proof -
  let ?opts = "case pw of None \<Rightarrow> [] | Some s \<Rightarrow> [''-p'' @ s]"
  let ?cmds = "commands_7zip exe (archive_path w k d) d pw"
  have "effects (trace (snd (compress_directory w k d exe pw st))) =
       effects (trace st) @ [Run_archiver ?cmds]"
    by (rule compress_directory_effects)
  moreover have "?cmds = [exe, ''a'', ''-t7z'', archive_path w k d, d, ''-mhe'', ''-mx9''] @ ?opts"
    by (simp add: commands_7zip_def)
  moreover have "''-t7z'' \<in> set ?cmds \<and> ''-mx9'' \<in> set ?cmds \<and> ''-mhe'' \<in> set ?cmds"
    by (simp add: commands_7zip_def)
  moreover have "list_ex is_password_option ?opts \<longleftrightarrow> pw \<noteq> None"
    by (cases pw) (simp_all add: is_password_option_def)
  moreover have "list_ex is_password_option ?cmds \<longleftrightarrow> pw \<noteq> None"
    if "\<not> is_password_option exe \<and> \<not> is_password_option (archive_path w k d) \<and>
        \<not> is_password_option d"
    using that by (cases pw) (simp_all add: commands_7zip_def is_password_option_def)
  ultimately show ?thesis by blast
qed

theorem archiver_command_line_witness:
  "\<not> is_password_option ''7z'' \<and> \<not> is_password_option ''/tmp/a'' \<and>
   \<not> is_password_option ''/tmp/a_2026.11.04_09.05.07.7z'' \<and>
   effects (trace (snd (compress_directory demo_env 0 ''/tmp/a'' ''7z'' (Some ''Sekrit'')
                          (start demo_env)))) =
     [Run_archiver [''7z'', ''a'', ''-t7z'', ''/tmp/a_2026.11.04_09.05.07.7z'', ''/tmp/a'',
                    ''-mhe'', ''-mx9'', ''-pSekrit'']] \<and>
   list_ex is_password_option
     [''7z'', ''a'', ''-t7z'', ''/tmp/a_2026.11.04_09.05.07.7z'', ''/tmp/a'',
      ''-mhe'', ''-mx9'', ''-pSekrit''] \<and>
   effects (trace (snd (compress_directory demo_env 0 ''/tmp/a'' ''7z'' None
                          (start demo_env)))) =
     [Run_archiver [''7z'', ''a'', ''-t7z'', ''/tmp/a_2026.11.04_09.05.07.7z'', ''/tmp/a'',
                    ''-mhe'', ''-mx9'']] \<and>
   \<not> list_ex is_password_option
     [''7z'', ''a'', ''-t7z'', ''/tmp/a_2026.11.04_09.05.07.7z'', ''/tmp/a'',
      ''-mhe'', ''-mx9'']"
proof -
  have n: "\<not> is_password_option ''7z''" "\<not> is_password_option ''/tmp/a''"
    "\<not> is_password_option ''/tmp/a_2026.11.04_09.05.07.7z''"
    by (simp_all add: is_password_option_def)
  show ?thesis
    using archiver_command_line [of demo_env 0 "''/tmp/a''" "''7z''" "Some ''Sekrit''" "start demo_env"]
      archiver_command_line [of demo_env 0 "''/tmp/a''" "''7z''" None "start demo_env"] n
    by (auto simp: demo_archive_0)
qed

subsection \<open>C5\<close>

text \<open>
  C5, as the claim states it, fails for a directory given with a trailing slash:
  \<open>os.path.basename\<close> of \<open>/data/docs/\<close> is empty, so the archive name starts with
  the underscore and does not hold the name of the directory; and the directories
  \<open>/data/docs/\<close> and \<open>/data/pics/\<close>, named \<open>docs\<close> and \<open>pics\<close>, get the same
  archive path when they are compressed within the same second.
\<close>

theorem trailing_slash_collision_counterexample:
  "directory_name ''/data/docs/'' = ''docs'' \<and>
   directory_name ''/data/pics/'' = ''pics'' \<and>
   fst (compress_directory same_second_env 0 ''/data/docs/'' ''7z'' None
          (start same_second_env)) = Inr ''/tmp/_2026.11.04_09.05.07.7z'' \<and>
   fst (compress_directory same_second_env (Suc 0) ''/data/pics/'' ''7z'' None
          (start same_second_env)) = Inr ''/tmp/_2026.11.04_09.05.07.7z''"
proof -
  have a: "archiver same_second_env k = Exited 0" and g: "gettempdir same_second_env = ''/tmp''" for k
    by (simp_all add: same_second_env_def demo_env_def)
  have "archive_path same_second_env k ''/data/docs/'' = ''/tmp/_2026.11.04_09.05.07.7z''"
    and "archive_path same_second_env k ''/data/pics/'' = ''/tmp/_2026.11.04_09.05.07.7z''" for k
    by (simp_all add: archive_path_def archive_filename_def path_join_def basename_def g
          demo_stamp_same_second)
  then show ?thesis
    by (simp add: compress_directory_result a directory_name_docs)
qed

text \<open>
  C5, amended. \<open>compress_directory\<close> names the archive after
  \<open>os.path.basename\<close> of the directory path, that is, after what follows the last
  slash: the name of the directory when the path does not end in a slash, and the empty
  string when it does. The archive name is this base name, an underscore, the time stamp
  (year, month, day, hour, minute and second of the local time, as
  \<open>%Y.%m.%d_%H.%M.%S\<close>) and \<open>.7z\<close>; the archive lies in the temporary directory,
  directly under it. Two directories compressed in the same run (the same temporary
  directory, any two readings of the clock) get different archive names and paths when
  their \<open>os.path.basename\<close> differ, and also when the two readings of the clock
  differ in the second or, for well-formed local times, in any other field.
\<close>

theorem archive_name_derivation:
  assumes "compress_directory w k1 d1 exe1 pw1 s1 = (Inr p1, s1')"
    and "compress_directory w k2 d2 exe2 pw2 s2 = (Inr p2, s2')"
  shows "basename p1 = basename d1 @ ''_'' @ strftime (localtime w k1) @ ''.7z'' \<and>
         strftime (localtime w k1) =
           str_nat (tm_year (localtime w k1)) @ ''.'' @ pad2 (tm_mon (localtime w k1)) @ ''.'' @
           pad2 (tm_mday (localtime w k1)) @ ''_'' @ pad2 (tm_hour (localtime w k1)) @ ''.'' @
           pad2 (tm_min (localtime w k1)) @ ''.'' @ pad2 (tm_sec (localtime w k1)) \<and>
         (d1 = [] \<or> last d1 \<noteq> CHR ''/'' \<longrightarrow> basename d1 = directory_name d1) \<and>
         (p1 = gettempdir w @ basename p1 \<or> p1 = gettempdir w @ ''/'' @ basename p1) \<and>
         (basename d1 \<noteq> basename d2 \<longrightarrow> basename p1 \<noteq> basename p2 \<and> p1 \<noteq> p2) \<and>
         (tm_sec (localtime w k1) < 60 \<and> tm_sec (localtime w k2) < 60 \<and>
          tm_sec (localtime w k1) \<noteq> tm_sec (localtime w k2) \<longrightarrow>
            basename p1 \<noteq> basename p2 \<and> p1 \<noteq> p2) \<and>
         (wellformed_time (localtime w k1) \<and> wellformed_time (localtime w k2) \<and>
          localtime w k1 \<noteq> localtime w k2 \<longrightarrow>
            basename p1 \<noteq> basename p2 \<and> p1 \<noteq> p2)"
proof -
  have p1: "p1 = archive_path w k1 d1" and p2: "p2 = archive_path w k2 d2"
    using assms by (auto dest: compress_directory_path)
  have b1: "basename p1 = archive_filename d1 (localtime w k1)"
    and b2: "basename p2 = archive_filename d2 (localtime w k2)"
    by (simp_all add: p1 p2 basename_archive_path)
  have name: "basename p1 = basename d1 @ ''_'' @ strftime (localtime w k1) @ ''.7z''"
    by (simp add: b1 archive_filename_def)
  have stamp: "strftime (localtime w k1) =
           str_nat (tm_year (localtime w k1)) @ ''.'' @ pad2 (tm_mon (localtime w k1)) @ ''.'' @
           pad2 (tm_mday (localtime w k1)) @ ''_'' @ pad2 (tm_hour (localtime w k1)) @ ''.'' @
           pad2 (tm_min (localtime w k1)) @ ''.'' @ pad2 (tm_sec (localtime w k1))"
    by (simp add: strftime_def)
  have plain: "basename d1 = directory_name d1" if "d1 = [] \<or> last d1 \<noteq> CHR ''/''"
    using directory_name_plain [OF that] by simp
  have place: "p1 = gettempdir w @ basename p1 \<or> p1 = gettempdir w @ ''/'' @ basename p1"
    unfolding p1 basename_archive_path by (rule archive_path_cases)
  have dirs: "basename p1 \<noteq> basename p2 \<and> p1 \<noteq> p2" if "basename d1 \<noteq> basename d2"
  proof -
    have "basename p1 \<noteq> basename p2"
      using that archive_filename_basename [of d1 "localtime w k1" d2 "localtime w k2"]
      by (auto simp: b1 b2)
    then show ?thesis by auto
  qed
  have secs: "basename p1 \<noteq> basename p2 \<and> p1 \<noteq> p2"
    if "tm_sec (localtime w k1) < 60 \<and> tm_sec (localtime w k2) < 60 \<and>
        tm_sec (localtime w k1) \<noteq> tm_sec (localtime w k2)"
  proof -
    have "basename p1 \<noteq> basename p2"
      using that archive_filename_seconds [of d1 "localtime w k1" d2 "localtime w k2"]
      by (auto simp: b1 b2)
    then show ?thesis by auto
  qed
  have times: "basename p1 \<noteq> basename p2 \<and> p1 \<noteq> p2"
    if "wellformed_time (localtime w k1) \<and> wellformed_time (localtime w k2) \<and>
        localtime w k1 \<noteq> localtime w k2"
  proof -
    have "basename p1 \<noteq> basename p2"
      using that archive_filename_time [of d1 "localtime w k1" d2 "localtime w k2"]
      by (auto simp: b1 b2)
    then show ?thesis by auto
  qed
  from name stamp plain place dirs secs times show ?thesis by blast
qed

theorem archive_name_derivation_witness:
  "fst (compress_directory demo_env 0 ''/tmp/a'' ''7z'' None (start demo_env)) =
     Inr ''/tmp/a_2026.11.04_09.05.07.7z'' \<and>
   fst (compress_directory demo_env (Suc 0) ''/tmp/b'' ''7z'' None (start demo_env)) =
     Inr ''/tmp/b_2026.11.04_09.05.08.7z'' \<and>
   basename ''/tmp/a'' \<noteq> basename ''/tmp/b'' \<and>
   last ''/tmp/a'' \<noteq> CHR ''/'' \<and>
   directory_name ''/tmp/a'' = ''a'' \<and>
   wellformed_time (localtime demo_env 0) \<and> wellformed_time (localtime demo_env (Suc 0)) \<and>
   localtime demo_env 0 \<noteq> localtime demo_env (Suc 0) \<and>
   tm_sec (localtime demo_env 0) < 60 \<and> tm_sec (localtime demo_env (Suc 0)) < 60 \<and>
   tm_sec (localtime demo_env 0) \<noteq> tm_sec (localtime demo_env (Suc 0)) \<and>
   strftime (localtime demo_env 0) = ''2026.11.04_09.05.07'' \<and>
   basename ''/tmp/a_2026.11.04_09.05.07.7z'' = ''a_2026.11.04_09.05.07.7z'' \<and>
   ''/tmp/a_2026.11.04_09.05.07.7z'' \<noteq> ''/tmp/b_2026.11.04_09.05.08.7z''"
proof -
  let ?c1 = "compress_directory demo_env 0 ''/tmp/a'' ''7z'' None (start demo_env)"
  let ?c2 = "compress_directory demo_env (Suc 0) ''/tmp/b'' ''7z'' None (start demo_env)"
  have a: "archiver demo_env k = Exited 0" for k
    by (simp add: demo_env_def)
  have f1: "fst ?c1 = Inr ''/tmp/a_2026.11.04_09.05.07.7z''"
    by (simp add: compress_directory_result demo_archive_0 a)
  have f2: "fst ?c2 = Inr ''/tmp/b_2026.11.04_09.05.08.7z''"
    by (simp add: compress_directory_result demo_archive_1 a)
  have c1: "?c1 = (Inr ''/tmp/a_2026.11.04_09.05.07.7z'', snd ?c1)"
    using f1 by (simp add: prod_eq_iff)
  have c2: "?c2 = (Inr ''/tmp/b_2026.11.04_09.05.08.7z'', snd ?c2)"
    using f2 by (simp add: prod_eq_iff)
  have d: "basename ''/tmp/a'' \<noteq> basename ''/tmp/b''" "last ''/tmp/a'' \<noteq> CHR ''/''"
    by (simp_all add: basename_def)
  have l: "localtime demo_env k = demo_time k" for k
    by (simp add: demo_env_def)
  have s: "tm_sec (localtime demo_env 0) < 60 \<and> tm_sec (localtime demo_env (Suc 0)) < 60 \<and>
   tm_sec (localtime demo_env 0) \<noteq> tm_sec (localtime demo_env (Suc 0))"
    "wellformed_time (localtime demo_env 0)" "wellformed_time (localtime demo_env (Suc 0))"
    "localtime demo_env 0 \<noteq> localtime demo_env (Suc 0)"
    by (simp_all add: l demo_time_def wellformed_time_def)
  show ?thesis
    using archive_name_derivation [OF c1 c2] f1 f2 d s
    by (simp add: l demo_stamp_0 basename_def)
qed

subsection \<open>C6\<close>

text \<open>
  C6. With the directories \<open>/tmp/a\<close> and \<open>/tmp/b\<close>, a server that accepts the
  login, an archiver that always exits with 0 and transfers that always succeed, the run
  exits with code 0 and its side effects are, in this order: one connect; for
  \<open>/tmp/a\<close> one archiver run, the upload of the archive under its generated file name
  and the removal of the local archive; the same for \<open>/tmp/b\<close>; one close. So there
  are two archiver runs, two uploads, two removals, one connect and one close, and
  neither archive is left on local storage.
\<close>

theorem two_directory_run:
  assumes "get_args c (start w) = (Inr a, st0)"
    and "directories a = [''/tmp/a'', ''/tmp/b'']"
    and "connect_outcome w = Connected"
    and "\<forall>k. archiver w k = Exited 0"
    and "\<forall>k. transfer w k = Transferred"
  shows "exit_code w c = 0 \<and>
    effects (trace (final_state w c)) =
      [Connect (sftp_hostname a) (sftp_port a) (sftp_username a) (sftp_password a),
       Run_archiver (commands_7zip (command_7zip a) (archive_path w 0 ''/tmp/a'') ''/tmp/a''
                       (archive_password a)),
       Sftp_cd (remote_path a),
       Sftp_put (archive_path w 0 ''/tmp/a'') (''a_'' @ strftime (localtime w 0) @ ''.7z''),
       Os_remove (archive_path w 0 ''/tmp/a''),
       Run_archiver (commands_7zip (command_7zip a) (archive_path w 1 ''/tmp/b'') ''/tmp/b''
                       (archive_password a)),
       Sftp_cd (remote_path a),
       Sftp_put (archive_path w 1 ''/tmp/b'') (''b_'' @ strftime (localtime w 1) @ ''.7z''),
       Os_remove (archive_path w 1 ''/tmp/b''),
       Sftp_close] \<and>
    count_events is_connect (trace (final_state w c)) = 1 \<and>
    count_events is_archiver_run (trace (final_state w c)) = 2 \<and>
    count_events is_put (trace (final_state w c)) = 2 \<and>
    count_events is_removal (trace (final_state w c)) = 2 \<and>
    count_events (\<lambda>e. e = Sftp_close) (trace (final_state w c)) = 1 \<and>
    archive_path w 0 ''/tmp/a'' \<notin> files (final_state w c) \<and>
    archive_path w 1 ''/tmp/b'' \<notin> files (final_state w c)"
proof -
  let ?s0 = "emit (Connect (sftp_hostname a) (sftp_port a) (sftp_username a) (sftp_password a))
               (print_line (connecting_message a) (start w))"
  let ?pa = "archive_path w 0 ''/tmp/a''"
  let ?pb = "archive_path w (Suc 0) ''/tmp/b''"
  have ar: "archiver w k = Exited 0" and tr: "transfer w k = Transferred" for k
    using assms(4,5) by simp_all
  have ok: "(0::int) = 0 \<or> (0::int) = 1"
    by simp
  obtain s1 where b1: "backup_directory w a 0 ''/tmp/a'' ?s0 = (Inr (), s1)"
    using backup_directory_success(1) [OF ar [of 0] ok tr [of 0], of a "''/tmp/a''" ?s0]
    by (cases "backup_directory w a 0 ''/tmp/a'' ?s0") auto
  obtain s2 where b2: "backup_directory w a (Suc 0) ''/tmp/b'' s1 = (Inr (), s2)"
    using backup_directory_success(1) [OF ar [of "Suc 0"] ok tr [of "Suc 0"], of a "''/tmp/b''" s1]
    by (cases "backup_directory w a (Suc 0) ''/tmp/b'' s1") auto
  have loop: "backup_directories w a 0 (directories a) ?s0 = (Inr (), s2)"
    by (simp add: assms(2) b1 b2)
  have m: "main w c = (Inr (), emit Sftp_close s2)"
    by (simp add: main_connected [OF assms(1,3)] loop)
  have e0: "effects (trace ?s0) =
      [Connect (sftp_hostname a) (sftp_port a) (sftp_username a) (sftp_password a)]"
    by (simp add: start_def)
  have e1: "effects (trace s1) = effects (trace ?s0) @
      [Run_archiver (commands_7zip (command_7zip a) ?pa ''/tmp/a'' (archive_password a)),
       Sftp_cd (remote_path a),
       Sftp_put ?pa (archive_filename ''/tmp/a'' (localtime w 0)),
       Os_remove ?pa]"
    using backup_directory_success(2) [OF ar [of 0] ok tr [of 0], of a "''/tmp/a''" ?s0]
    by (simp only: b1 snd_conv)
  have e2: "effects (trace s2) = effects (trace s1) @
      [Run_archiver (commands_7zip (command_7zip a) ?pb ''/tmp/b'' (archive_password a)),
       Sftp_cd (remote_path a),
       Sftp_put ?pb (archive_filename ''/tmp/b'' (localtime w (Suc 0))),
       Os_remove ?pb]"
    using backup_directory_success(2) [OF ar [of "Suc 0"] ok tr [of "Suc 0"], of a "''/tmp/b''" s1]
    by (simp only: b2 snd_conv)
  have f1: "files s1 = files ?s0 - {?pa}"
    using backup_directory_success(3) [OF ar [of 0] ok tr [of 0], of a "''/tmp/a''" ?s0]
    by (simp only: b1 snd_conv)
  have f2: "files s2 = files s1 - {?pb}"
    using backup_directory_success(3) [OF ar [of "Suc 0"] ok tr [of "Suc 0"], of a "''/tmp/b''" s1]
    by (simp only: b2 snd_conv)
  have na: "archive_filename ''/tmp/a'' t = ''a_'' @ strftime t @ ''.7z''"
    and nb: "archive_filename ''/tmp/b'' t = ''b_'' @ strftime t @ ''.7z''" for t
    by (simp_all add: archive_filename_def basename_def)
  have eff: "effects (trace (final_state w c)) =
      [Connect (sftp_hostname a) (sftp_port a) (sftp_username a) (sftp_password a),
       Run_archiver (commands_7zip (command_7zip a) ?pa ''/tmp/a'' (archive_password a)),
       Sftp_cd (remote_path a),
       Sftp_put ?pa (''a_'' @ strftime (localtime w 0) @ ''.7z''),
       Os_remove ?pa,
       Run_archiver (commands_7zip (command_7zip a) ?pb ''/tmp/b'' (archive_password a)),
       Sftp_cd (remote_path a),
       Sftp_put ?pb (''b_'' @ strftime (localtime w (Suc 0)) @ ''.7z''),
       Os_remove ?pb,
       Sftp_close]"
    by (simp add: final_state_def m e2 e1 e0 na nb)
  have fin: "files (final_state w c) = files ?s0 - {?pa} - {?pb}"
    by (simp add: final_state_def m f2 f1)
  have cnt: "count_events P (trace (final_state w c)) =
             count_events P (effects (trace (final_state w c)))"
    if "\<And>e. P e \<Longrightarrow> \<not> is_output e" for P
    using count_events_effects [of P] that by simp
  have c1: "count_events is_connect (trace (final_state w c)) = 1"
    by (subst cnt) (auto simp: eff count_events_def elim: is_connect.elims)
  have c2: "count_events is_archiver_run (trace (final_state w c)) = 2"
    by (subst cnt) (auto simp: eff count_events_def elim: is_archiver_run.elims)
  have c3: "count_events is_put (trace (final_state w c)) = 2"
    by (subst cnt) (auto simp: eff count_events_def elim: is_put.elims)
  have c4: "count_events is_removal (trace (final_state w c)) = 2"
    by (subst cnt) (auto simp: eff count_events_def elim: is_removal.elims)
  have c5: "count_events (\<lambda>e. e = Sftp_close) (trace (final_state w c)) = 1"
    by (subst cnt) (auto simp: eff count_events_def)
  have ex: "exit_code w c = 0"
    by (simp add: exit_code_def m exit_status_def)
  show ?thesis
    using ex eff c1 c2 c3 c4 c5 fin by simp
qed

theorem two_directory_run_witness:
  "get_args demo_cmdline (start demo_env) = (Inr demo_args, start demo_env) \<and>
   directories demo_args = [''/tmp/a'', ''/tmp/b''] \<and>
   connect_outcome demo_env = Connected \<and>
   (\<forall>k. archiver demo_env k = Exited 0) \<and>
   (\<forall>k. transfer demo_env k = Transferred) \<and>
   exit_code demo_env demo_cmdline = 0 \<and>
   effects (trace (final_state demo_env demo_cmdline)) =
     [Connect ''192.168.56.8'' 22 (Some ''test'') ''test'',
      Run_archiver [''7z'', ''a'', ''-t7z'', ''/tmp/a_2026.11.04_09.05.07.7z'', ''/tmp/a'',
                    ''-mhe'', ''-mx9'', ''-pSekrit''],
      Sftp_cd ''/'',
      Sftp_put ''/tmp/a_2026.11.04_09.05.07.7z'' ''a_2026.11.04_09.05.07.7z'',
      Os_remove ''/tmp/a_2026.11.04_09.05.07.7z'',
      Run_archiver [''7z'', ''a'', ''-t7z'', ''/tmp/b_2026.11.04_09.05.08.7z'', ''/tmp/b'',
                    ''-mhe'', ''-mx9'', ''-pSekrit''],
      Sftp_cd ''/'',
      Sftp_put ''/tmp/b_2026.11.04_09.05.08.7z'' ''b_2026.11.04_09.05.08.7z'',
      Os_remove ''/tmp/b_2026.11.04_09.05.08.7z'',
      Sftp_close] \<and>
   ''/tmp/a_2026.11.04_09.05.07.7z'' \<notin> files (final_state demo_env demo_cmdline) \<and>
   ''/tmp/b_2026.11.04_09.05.08.7z'' \<notin> files (final_state demo_env demo_cmdline)"
proof -
  have d: "directories demo_args = [''/tmp/a'', ''/tmp/b'']"
    by (simp add: demo_args_def)
  have c: "connect_outcome demo_env = Connected"
    and a: "\<forall>k. archiver demo_env k = Exited 0"
    and t: "\<forall>k. transfer demo_env k = Transferred"
    by (simp_all add: demo_env_def)
  have l: "localtime demo_env k = demo_time k" for k
    by (simp add: demo_env_def)
  show ?thesis
    using two_directory_run [OF get_args_demo d c a t] get_args_demo d c a t
    by (simp add: demo_archive_0 demo_archive_1 demo_stamp_0 demo_stamp_1 l
          commands_7zip_def demo_args_def)
qed

subsection \<open>C7\<close>

text \<open>
  C7. For every run in which the server refuses the login with an authentication error,
  no archive is created and no upload is attempted: the trace holds no archiver run and
  no SFTP \<open>cd\<close> or \<open>put\<close>, nothing is removed, and the local files are as they were
  before the run.
\<close>

theorem authentication_failure_no_work:
  assumes "connect_outcome w = AuthenticationException m"
  shows "count_events is_archiver_run (trace (final_state w c)) = 0 \<and>
         count_events is_upload (trace (final_state w c)) = 0 \<and>
         count_events is_removal (trace (final_state w c)) = 0 \<and>
         files (final_state w c) = initial_files w"
proof -
  consider
    (helped) "get_args c (start w) = (Inl (SystemExit 0), emit Print_help (start w))"
  | (usage) mm where "get_args c (start w) = (Inl (SystemExit 2), emit (Usage_error mm) (start w))"
  | (parsed) a where "get_args c (start w) = (Inr a, start w)"
    using get_args_cases [of c "start w"] by blast
  then show ?thesis
  proof cases
    case helped
    then show ?thesis
      by (simp add: final_state_def main_get_args_failed [OF helped] count_events_def)
  next
    case usage
    then show ?thesis
      by (simp add: final_state_def main_get_args_failed [OF usage] count_events_def)
  next
    case parsed
    then show ?thesis
      by (simp add: final_state_def main_authentication_failed [OF parsed assms]
            count_events_def)
  qed
qed

theorem authentication_failure_no_work_witness:
  "connect_outcome denied_env = AuthenticationException ''Authentication failed.'' \<and>
   count_events is_archiver_run (trace (final_state denied_env demo_cmdline)) = 0 \<and>
   count_events is_upload (trace (final_state denied_env demo_cmdline)) = 0 \<and>
   count_events is_connect (trace (final_state denied_env demo_cmdline)) = 1 \<and>
   files (final_state denied_env demo_cmdline) = {}"
proof -
  have c: "connect_outcome denied_env = AuthenticationException ''Authentication failed.''"
    by (simp add: denied_env_def)
  have i: "initial_files denied_env = {}"
    by (simp add: denied_env_def demo_env_def)
  have "count_events is_connect (trace (final_state denied_env demo_cmdline)) = 1"
    by (simp add: final_state_def main_authentication_failed [OF get_args_demo c]
          count_events_def)
  then show ?thesis
    using authentication_failure_no_work [OF c, of demo_cmdline] c i by simp
qed

subsection \<open>C8\<close>

text \<open>
  C8. For every directory whose archive is uploaded successfully, the local archive file,
  which exists when the upload returns, no longer exists on local storage once the
  iteration has made its next step, the removal: the iteration ends normally in a state
  whose files do not contain the archive.
\<close>

theorem archive_gone_after_upload:
  assumes "compress_directory w k d (command_7zip a) (archive_password a) st = (Inr p, st1)"
    and "upload_file w k p (remote_path a) st1 = (Inr u, st2)"
  shows "p \<in> files st2 \<and>
         fst (backup_directory w a k d st) = Inr () \<and>
         p \<notin> files (snd (backup_directory w a k d st)) \<and>
         files (snd (backup_directory w a k d st)) = files st2 - {p}"
proof -
  have in2: "p \<in> files st2"
    using upload_file_ok [OF assms(2)] by simp
  have b: "backup_directory w a k d st = os_remove p st2"
    using assms by (simp add: backup_directory_def)
  show ?thesis
    using in2 by (simp add: b os_remove_result os_remove_files)
qed

theorem archive_gone_after_upload_witness:
  "fst (backup_directory demo_env demo_args 0 ''/tmp/a'' (start demo_env)) = Inr () \<and>
   ''/tmp/a_2026.11.04_09.05.07.7z'' \<notin>
     files (snd (backup_directory demo_env demo_args 0 ''/tmp/a'' (start demo_env)))"
proof -
  from demo_first_iteration obtain s1 s2 where
    c: "compress_directory demo_env 0 ''/tmp/a'' (command_7zip demo_args)
       (archive_password demo_args) (start demo_env) = (Inr ''/tmp/a_2026.11.04_09.05.07.7z'', s1)"
    and u: "upload_file demo_env 0 ''/tmp/a_2026.11.04_09.05.07.7z'' (remote_path demo_args) s1 =
       (Inr (), s2)"
    by (elim exE conjE)
  show ?thesis
    using archive_gone_after_upload [OF c u] by simp
qed

subsection \<open>C9\<close>

text \<open>
  C9, as the claim states it, fails: the command line \<open>-h\<close> gives no archiver path, no
  host and no directory, and the process prints the help text and exits with code 0.
\<close>

theorem help_exit_code_counterexample:
  "given_7zip_command help_cmdline = None \<and>
   given_hostname help_cmdline = None \<and>
   given_directories help_cmdline = [] \<and>
   exit_code demo_env help_cmdline = 0 \<and>
   trace (final_state demo_env help_cmdline) = [Print_help]"
proof -
  have "get_args help_cmdline (start demo_env) =
          (Inl (SystemExit 0), emit Print_help (start demo_env))"
    by (simp add: get_args_def help_cmdline_def)
  then have "main demo_env help_cmdline = (Inl (SystemExit 0), emit Print_help (start demo_env))"
    by (rule main_get_args_failed)
  then show ?thesis
    by (simp add: exit_code_def exit_status_def final_state_def help_cmdline_def)
qed

text \<open>
  C9, amended. For every command line in which the archiver path is missing, the host is
  missing or no directory is given, the program stops inside \<open>get_args\<close>, before any
  side effect (no connect, no archiver run, the local files untouched). When
  \<open>argparse\<close> reaches a help flag before any token that it rejects, the program
  prints the help text and exits with code 0. In every other case it stops with a usage
  error: exit code 2 and a message, which, when \<open>argparse\<close> has read the whole
  command line without rejecting a token, names every required argument that is missing.
\<close>

theorem missing_argument_stops_run:
  assumes "given_7zip_command c = None \<or> given_hostname c = None \<or> given_directories c = []"
  shows "effects (trace (final_state w c)) = [] \<and>
    files (final_state w c) = initial_files w \<and>
    (early c \<noteq> Some Help \<longrightarrow>
       exit_code w c = 2 \<and> (\<exists>m. trace (final_state w c) = [Usage_error m])) \<and>
    (early c = None \<longrightarrow>
       trace (final_state w c) =
         [Usage_error (''the following arguments are required: '' @
                       str_join '', '' (required_missing c))] \<and>
       (given_directories c = [] \<longrightarrow> ''directory'' \<in> set (required_missing c)) \<and>
       (given_7zip_command c = None \<longrightarrow> ''--7zip-command'' \<in> set (required_missing c)) \<and>
       (given_hostname c = None \<longrightarrow> ''--hostname'' \<in> set (required_missing c))) \<and>
    (early c = Some Help \<longrightarrow>
       exit_code w c = 0 \<and> trace (final_state w c) = [Print_help])"
proof -
  have miss: "required_missing c \<noteq> []"
    using assms by (auto simp: required_missing_def)
  have names: "(given_directories c = [] \<longrightarrow> ''directory'' \<in> set (required_missing c)) \<and>
       (given_7zip_command c = None \<longrightarrow> ''--7zip-command'' \<in> set (required_missing c)) \<and>
       (given_hostname c = None \<longrightarrow> ''--hostname'' \<in> set (required_missing c))"
    by (simp add: required_missing_def)
  consider
    (helped) "get_args c (start w) = (Inl (SystemExit 0), emit Print_help (start w))"
      "early c = Some Help"
  | (usage) mm where "get_args c (start w) = (Inl (SystemExit 2), emit (Usage_error mm) (start w))"
      "early c \<noteq> Some Help"
    using get_args_cases [of c "start w"] miss by blast
  then show ?thesis
  proof cases
    case helped
    then show ?thesis
      by (simp add: final_state_def exit_code_def exit_status_def
            main_get_args_failed [OF helped(1)])
  next
    case usage
    have all: "trace (final_state w c) =
         [Usage_error (''the following arguments are required: '' @
                       str_join '', '' (required_missing c))]" if "early c = None"
      using main_get_args_failed [OF get_args_missing [OF that miss, of "start w"]]
      by (simp add: final_state_def)
    from usage all names show ?thesis
      by (simp add: final_state_def exit_code_def exit_status_def
            main_get_args_failed [OF usage(1)])
  qed
qed

theorem missing_argument_stops_run_witness:
  "given_hostname no_host_cmdline = None \<and>
   early no_host_cmdline = None \<and>
   exit_code demo_env no_host_cmdline = 2 \<and>
   trace (final_state demo_env no_host_cmdline) =
     [Usage_error ''the following arguments are required: --hostname''] \<and>
   given_hostname help_cmdline = None \<and>
   early help_cmdline = Some Help \<and>
   exit_code demo_env help_cmdline = 0 \<and>
   effects (trace (final_state demo_env help_cmdline)) = []"
proof -
  have n: "given_hostname no_host_cmdline = None" "early no_host_cmdline = None"
    "required_missing no_host_cmdline = [''--hostname'']"
    by (simp_all add: no_host_cmdline_def demo_cmdline_def required_missing_def)
  have h: "given_hostname help_cmdline = None" "early help_cmdline = Some Help"
    by (simp_all add: help_cmdline_def)
  show ?thesis
    using missing_argument_stops_run [of no_host_cmdline demo_env]
      missing_argument_stops_run [of help_cmdline demo_env] n h
    by simp
qed

subsection \<open>C10\<close>




end
